theory Spec2Isabelle
  imports Complex_Main "HOL-Library.Log_Nat"
begin

section \<open>JavaScript values used by the calculation core\<close>

subsection \<open>Numbers\<close>

text \<open>
  A JavaScript \<^verbatim>\<open>number\<close> is an IEEE-754 binary64 value: NaN, a signed infinity,
  or a signed finite magnitude (so that \<open>+0\<close> and \<open>-0\<close> are distinct values).
  The sign bit is \<open>True\<close> for a negative value. The magnitude of a finite value is
  the exact rational it denotes.
\<close>

datatype number = NaN | Infinity bool | Finite bool rat

definition pow2 :: "int \<Rightarrow> rat" where
  "pow2 e = (if 0 \<le> e then 2 ^ nat e else 1 / 2 ^ nat (- e))"

text \<open>For \<open>q > 0\<close>, the exponent \<open>e\<close> with \<open>2^e \<le> q < 2^(e+1)\<close>.\<close>

definition ilog2 :: "rat \<Rightarrow> int" where
  "ilog2 q = (case quotient_of q of (n, d) \<Rightarrow>
     (let e0 = bitlen n - bitlen d in if pow2 e0 \<le> q then e0 else e0 - 1))"

definition round_half_even :: "rat \<Rightarrow> int" where
  "round_half_even x =
     (let f = \<lfloor>x\<rfloor>; r = x - of_int f
      in if r < 1 / 2 then f
         else if 1 / 2 < r then f + 1
         else if even f then f else f + 1)"

text \<open>
  Rounding of an exact non-negative magnitude to binary64, round-to-nearest, ties to even:
  53 significant bits, least exponent \<open>-1022\<close> (subnormals below it), overflow to
  infinity from \<open>2^1024\<close> on.
\<close>

definition round_binary64 :: "bool \<Rightarrow> rat \<Rightarrow> number" where
  "round_binary64 s q =
     (if q = 0 then Finite s 0
      else (let p = max (ilog2 q) (- 1022) - 52;
                v = of_int (round_half_even (q / pow2 p)) * pow2 p
            in if pow2 1024 \<le> v then Infinity s else Finite s v))"

definition signed :: "bool \<Rightarrow> rat \<Rightarrow> rat" where
  "signed s m = (if s then - m else m)"

text \<open>The operators \<^verbatim>\<open>+\<close>, unary \<^verbatim>\<open>-\<close>, \<^verbatim>\<open>-\<close>, \<^verbatim>\<open>*\<close> and \<^verbatim>\<open>/\<close> on numbers.\<close>

fun number_add :: "number \<Rightarrow> number \<Rightarrow> number" where
  "number_add NaN _ = NaN"
| "number_add _ NaN = NaN"
| "number_add (Infinity s) (Infinity t) = (if s = t then Infinity s else NaN)"
| "number_add (Infinity s) (Finite _ _) = Infinity s"
| "number_add (Finite _ _) (Infinity t) = Infinity t"
| "number_add (Finite s a) (Finite t b) =
     (let r = signed s a + signed t b
      in if r = 0 then Finite (s \<and> t) 0 else round_binary64 (r < 0) \<bar>r\<bar>)"

fun number_negate :: "number \<Rightarrow> number" where
  "number_negate NaN = NaN"
| "number_negate (Infinity s) = Infinity (\<not> s)"
| "number_negate (Finite s a) = Finite (\<not> s) a"

definition number_subtract :: "number \<Rightarrow> number \<Rightarrow> number" where
  "number_subtract x y = number_add x (number_negate y)"

fun number_multiply :: "number \<Rightarrow> number \<Rightarrow> number" where
  "number_multiply NaN _ = NaN"
| "number_multiply _ NaN = NaN"
| "number_multiply (Infinity s) (Infinity t) = Infinity (s \<noteq> t)"
| "number_multiply (Infinity s) (Finite t b) = (if b = 0 then NaN else Infinity (s \<noteq> t))"
| "number_multiply (Finite s a) (Infinity t) = (if a = 0 then NaN else Infinity (s \<noteq> t))"
| "number_multiply (Finite s a) (Finite t b) = round_binary64 (s \<noteq> t) (a * b)"

fun number_divide :: "number \<Rightarrow> number \<Rightarrow> number" where
  "number_divide NaN _ = NaN"
| "number_divide _ NaN = NaN"
| "number_divide (Infinity s) (Infinity t) = NaN"
| "number_divide (Infinity s) (Finite t b) = Infinity (s \<noteq> t)"
| "number_divide (Finite s a) (Infinity t) = Finite (s \<noteq> t) 0"
| "number_divide (Finite s a) (Finite t b) =
     (if b = 0 then (if a = 0 then NaN else Infinity (s \<noteq> t))
      else round_binary64 (s \<noteq> t) (a / b))"

text \<open>\<^verbatim>\<open>x === 0\<close>: true for \<open>+0\<close> and \<open>-0\<close>, false for every other number and for NaN.\<close>

fun strict_equals_zero :: "number \<Rightarrow> bool" where
  "strict_equals_zero (Finite s m) = (m = 0)"
| "strict_equals_zero _ = False"

text \<open>\<^verbatim>\<open>Number.isFinite(x)\<close> for a value of type number.\<close>

fun Number_isFinite :: "number \<Rightarrow> bool" where
  "Number_isFinite (Finite s m) = True"
| "Number_isFinite _ = False"

text \<open>The rational that a finite number denotes; NaN and the infinities denote none.\<close>

fun number_value :: "number \<Rightarrow> rat option" where
  "number_value (Finite s m) = Some (signed s m)"
| "number_value _ = None"

text \<open>The number written as an integer literal.\<close>

definition number_of_int :: "int \<Rightarrow> number" where
  "number_of_int i = Finite (i < 0) (of_int \<bar>i\<bar>)"

subsection \<open>Errors\<close>

text \<open>
  Every failure of the core is a thrown \<^verbatim>\<open>Error\<close>; the constructors name the kinds:
  \<^item> \<open>InvalidOperator v\<close>: "Invalid operator: v. Must be one of: ..." (Operator.create);
  \<^item> \<open>DivisionByZero\<close>: "Division by zero is not allowed" (Operator.calculate) and
    "Invalid operation: division by zero" (CalculationOperation.create);
  \<^item> \<open>InvalidValue\<close>: "Value must be a finite number" (CalculationRoot.create);
  \<^item> \<open>MissingParent\<close>: "Operation must have a parent (root or operation)", and
    "Must specify parent root or operation" (getParentValue);
  \<^item> \<open>AmbiguousParent\<close>: "Operation cannot have both root and operation parent";
  \<^item> \<open>ParentRootNotFound i\<close>, \<open>ParentOperationNotFound i\<close>: "Parent ... not found: i";
  \<^item> \<open>PersistenceFailure m\<close>: a rejection of a repository call;
  \<^item> \<open>CacheFailure m\<close>: a rejection of a cache call;
  \<^item> \<open>TypeError m\<close>: a runtime type error of the language.
\<close>

datatype error =
    InvalidOperator string
  | DivisionByZero
  | InvalidValue
  | MissingParent
  | AmbiguousParent
  | ParentRootNotFound string
  | ParentOperationNotFound string
  | PersistenceFailure string
  | CacheFailure string
  | TypeError string

section \<open>Operator value object\<close>

datatype OperatorType = ADD | SUBTRACT | MULTIPLY | DIVIDE

text \<open>\<^verbatim>\<open>OPERATORS\<close>, the canonical names, and the string each \<open>OperatorType\<close> is.\<close>

definition OPERATORS :: "string list" where
  "OPERATORS = [''ADD'', ''SUBTRACT'', ''MULTIPLY'', ''DIVIDE'']"

fun OperatorType_string :: "OperatorType \<Rightarrow> string" where
  "OperatorType_string ADD = ''ADD''"
| "OperatorType_string SUBTRACT = ''SUBTRACT''"
| "OperatorType_string MULTIPLY = ''MULTIPLY''"
| "OperatorType_string DIVIDE = ''DIVIDE''"

text \<open>The cast \<^verbatim>\<open>value as OperatorType\<close> of a string that is one of the names.\<close>

definition as_OperatorType :: "string \<Rightarrow> OperatorType" where
  "as_OperatorType v =
     (if v = ''ADD'' then ADD else if v = ''SUBTRACT'' then SUBTRACT
      else if v = ''MULTIPLY'' then MULTIPLY else DIVIDE)"

datatype Operator = Operator OperatorType

definition Operator_create :: "string \<Rightarrow> error + Operator" where
  "Operator_create v =
     (if v \<notin> set OPERATORS then Inl (InvalidOperator v)
      else Inr (Operator (as_OperatorType v)))"

definition fromType :: "OperatorType \<Rightarrow> Operator" where
  "fromType t = Operator t"

fun calculate :: "Operator \<Rightarrow> number \<Rightarrow> number \<Rightarrow> error + number" where
  "calculate (Operator ADD) left right = Inr (number_add left right)"
| "calculate (Operator SUBTRACT) left right = Inr (number_subtract left right)"
| "calculate (Operator MULTIPLY) left right = Inr (number_multiply left right)"
| "calculate (Operator DIVIDE) left right =
     (if strict_equals_zero right then Inl DivisionByZero
      else Inr (number_divide left right))"

fun isValidWith :: "Operator \<Rightarrow> number \<Rightarrow> bool" where
  "isValidWith (Operator v) operand =
     (if v = DIVIDE \<and> strict_equals_zero operand then False else True)"

fun toString :: "Operator \<Rightarrow> OperatorType" where
  "toString (Operator v) = v"


section \<open>Entities\<close>

subsection \<open>Dates, optional strings\<close>

text \<open>
  A \<^verbatim>\<open>Date\<close> object is its time value: milliseconds since the epoch, or none for an
  invalid date. \<^verbatim>\<open>new Date(d)\<close> of a Date object \<open>d\<close> is a Date with the time value
  of \<open>d\<close>. \<^verbatim>\<open>new Date()\<close> reads the clock, which the callers below receive as the
  argument \<open>now\<close>; \<^verbatim>\<open>crypto.randomUUID()\<close> likewise is the argument \<open>uuid\<close>.
\<close>

datatype Date = Date (time_value: "int option")

definition new_Date :: "Date \<Rightarrow> Date" where
  "new_Date d = Date (time_value d)"

text \<open>
  An optional or nullable string (\<^verbatim>\<open>string | undefined\<close>, \<^verbatim>\<open>string | null\<close>) is a
  \<open>string option\<close>. In a condition such a value counts as true when it is a string
  that is not empty.
\<close>

definition truthy :: "string option \<Rightarrow> bool" where
  "truthy x = (case x of None \<Rightarrow> False | Some v \<Rightarrow> v \<noteq> [])"

text \<open>\<^verbatim>\<open>x ?? null\<close>: undefined becomes null, every string (also the empty one) stays.\<close>

definition or_null :: "string option \<Rightarrow> string option" where
  "or_null x = (case x of None \<Rightarrow> None | Some v \<Rightarrow> Some v)"

subsection \<open>CalculationOperation\<close>

text \<open>
  \<open>CalculationOperationProps\<close> with \<open>'o = OperatorType\<close>; the fields of the entity are
  the same record with \<open>'o = Operator\<close>.
\<close>

record 'o CalculationOperationProps =
  op_id :: string
  op_parentRootId :: "string option"
  op_parentOperationId :: "string option"
  op_operator :: 'o
  op_operand :: number
  op_result :: number
  op_userId :: string
  op_username :: "string option"
  op_createdAt :: Date
  op_updatedAt :: Date

record CreateCalculationOperationInput =
  parentRootId :: "string option"
  parentOperationId :: "string option"
  operator :: Operator
  operand :: number
  parentValue :: number
  userId :: string
  username :: "string option"

datatype CalculationOperation =
  CalculationOperation (op_fields: "Operator CalculationOperationProps")
                       (children: "CalculationOperation list")

text \<open>The private constructor: the fields of the props, no children.\<close>

definition new_CalculationOperation ::
  "OperatorType CalculationOperationProps \<Rightarrow> CalculationOperation" where
  "new_CalculationOperation props =
     CalculationOperation
       \<lparr>op_id = op_id props,
        op_parentRootId = op_parentRootId props,
        op_parentOperationId = op_parentOperationId props,
        op_operator = fromType (op_operator props),
        op_operand = op_operand props,
        op_result = op_result props,
        op_userId = op_userId props,
        op_username = op_username props,
        op_createdAt = op_createdAt props,
        op_updatedAt = op_updatedAt props\<rparr> []"

definition CalculationOperation_create ::
  "Date \<Rightarrow> string \<Rightarrow> CreateCalculationOperationInput \<Rightarrow> error + CalculationOperation" where
  "CalculationOperation_create now uuid input =
     (if \<not> truthy (parentRootId input) \<and> \<not> truthy (parentOperationId input)
        then Inl MissingParent
      else if truthy (parentRootId input) \<and> truthy (parentOperationId input)
        then Inl AmbiguousParent
      else if \<not> isValidWith (operator input) (operand input)
        then Inl DivisionByZero
      else (case calculate (operator input) (parentValue input) (operand input) of
              Inl e \<Rightarrow> Inl e
            | Inr r \<Rightarrow>
                Inr (new_CalculationOperation
                  \<lparr>op_id = uuid,
                   op_parentRootId = or_null (parentRootId input),
                   op_parentOperationId = or_null (parentOperationId input),
                   op_operator = toString (operator input),
                   op_operand = operand input,
                   op_result = r,
                   op_userId = userId input,
                   op_username = username input,
                   op_createdAt = now,
                   op_updatedAt = now\<rparr>)))"

definition CalculationOperation_fromPersistence ::
  "OperatorType CalculationOperationProps \<Rightarrow> CalculationOperation" where
  "CalculationOperation_fromPersistence props = new_CalculationOperation props"

fun setChildren :: "CalculationOperation list \<Rightarrow> CalculationOperation \<Rightarrow> CalculationOperation" where
  "setChildren cs (CalculationOperation f _) = CalculationOperation f cs"

fun addChild :: "CalculationOperation \<Rightarrow> CalculationOperation \<Rightarrow> CalculationOperation" where
  "addChild c (CalculationOperation f cs) = CalculationOperation f (cs @ [c])"

text \<open>The plain object that \<^verbatim>\<open>toJSON\<close> returns: the props and the children's objects.\<close>

datatype OperationJSON =
  OperationJSON (json_props: "OperatorType CalculationOperationProps")
                (json_children: "OperationJSON list")

fun CalculationOperation_toJSON :: "CalculationOperation \<Rightarrow> OperationJSON" where
  "CalculationOperation_toJSON (CalculationOperation f cs) =
     OperationJSON
       \<lparr>op_id = op_id f,
        op_parentRootId = op_parentRootId f,
        op_parentOperationId = op_parentOperationId f,
        op_operator = toString (op_operator f),
        op_operand = op_operand f,
        op_result = op_result f,
        op_userId = op_userId f,
        op_username = op_username f,
        op_createdAt = op_createdAt f,
        op_updatedAt = op_updatedAt f\<rparr>
       (map CalculationOperation_toJSON cs)"

subsection \<open>CalculationRoot\<close>

record CalculationRootProps =
  root_id :: string
  root_value :: number
  root_userId :: string
  root_username :: "string option"
  root_createdAt :: Date
  root_updatedAt :: Date

record CreateCalculationRootInput =
  in_value :: number
  in_userId :: string
  in_username :: "string option"

datatype CalculationRoot =
  CalculationRoot (root_fields: CalculationRootProps)
                  (operations: "CalculationOperation list")

definition new_CalculationRoot :: "CalculationRootProps \<Rightarrow> CalculationRoot" where
  "new_CalculationRoot props =
     CalculationRoot
       \<lparr>root_id = root_id props,
        root_value = root_value props,
        root_userId = root_userId props,
        root_username = root_username props,
        root_createdAt = root_createdAt props,
        root_updatedAt = root_updatedAt props\<rparr> []"

definition CalculationRoot_create ::
  "Date \<Rightarrow> string \<Rightarrow> CreateCalculationRootInput \<Rightarrow> error + CalculationRoot" where
  "CalculationRoot_create now uuid input =
     (if \<not> Number_isFinite (in_value input) then Inl InvalidValue
      else Inr (new_CalculationRoot
        \<lparr>root_id = uuid,
         root_value = in_value input,
         root_userId = in_userId input,
         root_username = in_username input,
         root_createdAt = now,
         root_updatedAt = now\<rparr>))"

definition CalculationRoot_fromPersistence :: "CalculationRootProps \<Rightarrow> CalculationRoot" where
  "CalculationRoot_fromPersistence props = new_CalculationRoot props"

fun setOperations :: "CalculationOperation list \<Rightarrow> CalculationRoot \<Rightarrow> CalculationRoot" where
  "setOperations ops (CalculationRoot f _) = CalculationRoot f ops"

fun addOperation :: "CalculationOperation \<Rightarrow> CalculationRoot \<Rightarrow> CalculationRoot" where
  "addOperation operation (CalculationRoot f ops) = CalculationRoot f (ops @ [operation])"

text \<open>
  \<^verbatim>\<open>countRecursive\<close>: a left fold (\<^verbatim>\<open>reduce\<close>) from 0 that adds, for each operation,
  one and the count of its children. The counts are non-negative integers.
\<close>

function countRecursive :: "CalculationOperation list \<Rightarrow> nat" where
  "countRecursive ops = foldl (\<lambda>sum op. sum + 1 + countRecursive (children op)) 0 ops"
  by pat_completeness auto
termination
proof (relation "measure (size_list size)")
  show "wf (measure (size_list (size :: CalculationOperation \<Rightarrow> nat)))"
    by simp
next
  fix ops :: "CalculationOperation list" and sum :: nat and op :: CalculationOperation
  assume "op \<in> set ops"
  then have "size op \<le> size_list size ops"
    by (rule size_list_estimation') simp
  moreover have "size_list size (children op) < size op"
    by (cases op) simp
  ultimately show "(children op, ops) \<in> measure (size_list size)"
    by simp
qed

declare countRecursive.simps [simp del]

definition getTotalOperationCount :: "CalculationRoot \<Rightarrow> nat" where
  "getTotalOperationCount r = countRecursive (operations r)"

datatype RootJSON =
  RootJSON (json_root_props: CalculationRootProps)
           (json_operations: "OperationJSON list")

fun CalculationRoot_toJSON :: "CalculationRoot \<Rightarrow> RootJSON" where
  "CalculationRoot_toJSON (CalculationRoot f ops) =
     RootJSON
       \<lparr>root_id = root_id f,
        root_value = root_value f,
        root_userId = root_userId f,
        root_username = root_username f,
        root_createdAt = root_createdAt f,
        root_updatedAt = root_updatedAt f\<rparr>
       (map CalculationOperation_toJSON ops)"

section \<open>Calculation service: entity reconstitution from cached data\<close>

fun reconstituteOperation :: "OperationJSON \<Rightarrow> CalculationOperation" where
  "reconstituteOperation (OperationJSON d cs) =
     setChildren (map reconstituteOperation cs)
       (CalculationOperation_fromPersistence
          \<lparr>op_id = op_id d,
           op_parentRootId = op_parentRootId d,
           op_parentOperationId = op_parentOperationId d,
           op_operator = op_operator d,
           op_operand = op_operand d,
           op_result = op_result d,
           op_userId = op_userId d,
           op_username = op_username d,
           op_createdAt = new_Date (op_createdAt d),
           op_updatedAt = new_Date (op_updatedAt d)\<rparr>)"

fun reconstituteTree :: "RootJSON \<Rightarrow> CalculationRoot" where
  "reconstituteTree (RootJSON d ops) =
     setOperations (map reconstituteOperation ops)
       (CalculationRoot_fromPersistence
          \<lparr>root_id = root_id d,
           root_value = root_value d,
           root_userId = root_userId d,
           root_username = root_username d,
           root_createdAt = new_Date (root_createdAt d),
           root_updatedAt = new_Date (root_updatedAt d)\<rparr>)"

definition reconstituteTrees :: "RootJSON list \<Rightarrow> CalculationRoot list" where
  "reconstituteTrees data = map reconstituteTree data"

section \<open>Repository: the operations of one root among all operation rows\<close>

text \<open>A row of the operation query; the decimal columns arrive as strings.\<close>

record OperationRow =
  row_id :: string
  row_parentRootId :: "string option"
  row_parentOperationId :: "string option"
  row_operator :: OperatorType
  row_operand :: string
  row_result :: string
  row_userId :: string
  row_username :: "string option"
  row_createdAt :: Date
  row_updatedAt :: Date

text \<open>
  The first loop of \<^verbatim>\<open>filterOperationsForRoot\<close>: the ids of the rows whose
  \<^verbatim>\<open>parentRootId === rootId\<close> are added to the set \<^verbatim>\<open>belongsToRoot\<close>.
\<close>

fun addDirectChildren :: "string \<Rightarrow> OperationRow list \<Rightarrow> string set \<Rightarrow> string set" where
  "addDirectChildren rootId [] belongsToRoot = belongsToRoot"
| "addDirectChildren rootId (op # ops) belongsToRoot =
     addDirectChildren rootId ops
       (if row_parentRootId op = Some rootId then insert (row_id op) belongsToRoot
        else belongsToRoot)"

text \<open>
  One run of the inner \<^verbatim>\<open>for\<close> loop over all rows, on the set and the flag
  \<^verbatim>\<open>foundNew\<close>.
\<close>

fun addNestedChildren ::
  "OperationRow list \<Rightarrow> string set \<times> bool \<Rightarrow> string set \<times> bool" where
  "addNestedChildren [] (belongsToRoot, foundNew) = (belongsToRoot, foundNew)"
| "addNestedChildren (op # ops) (belongsToRoot, foundNew) =
     addNestedChildren ops
       (if truthy (row_parentOperationId op) \<and>
           the (row_parentOperationId op) \<in> belongsToRoot
        then (if row_id op \<notin> belongsToRoot
              then (insert (row_id op) belongsToRoot, True)
              else (belongsToRoot, foundNew))
        else (belongsToRoot, foundNew))"

text \<open>
  The \<^verbatim>\<open>while (foundNew)\<close> loop: it starts with \<^verbatim>\<open>foundNew = true\<close>, so the inner
  loop runs at least once, and runs again as long as a run has added an id.
\<close>

function expandUntilFixed :: "OperationRow list \<Rightarrow> string set \<Rightarrow> string set" where
  "expandUntilFixed allOps belongsToRoot =
     (case addNestedChildren allOps (belongsToRoot, False) of
        (belongsToRoot', foundNew) \<Rightarrow>
          if foundNew then expandUntilFixed allOps belongsToRoot' else belongsToRoot')"
  by pat_completeness auto
termination
proof (relation "measure (\<lambda>(allOps, S). card (row_id ` set allOps - S))", goal_cases)
  case 1
  show ?case by simp
next
  case (2 allOps S S' foundNew)
  have grows: "addNestedChildren ops (T, f) = (T', f') \<Longrightarrow>
      T \<subseteq> T' \<and> T' \<subseteq> T \<union> row_id ` set ops \<and> (f' \<longleftrightarrow> f \<or> T' \<noteq> T)"
    for ops T f T' f'
  proof (induction ops arbitrary: T f)
    case Nil
    then show ?case by simp
  next
    case (Cons op ops)
    show ?case
    proof (cases "truthy (row_parentOperationId op) \<and> the (row_parentOperationId op) \<in> T
                  \<and> row_id op \<notin> T")
      case True
      with Cons.prems have "addNestedChildren ops (insert (row_id op) T, True) = (T', f')"
        by simp
      from Cons.IH [OF this] True show ?thesis by auto
    next
      case False
      with Cons.prems have "addNestedChildren ops (T, f) = (T', f')"
        by (auto split: if_splits)
      from Cons.IH [OF this] show ?thesis by auto
    qed
  qed
  from 2 have "addNestedChildren allOps (S, False) = (S', True)"
    by auto
  from grows [OF this]
  have sub: "S \<subseteq> S'" and bound: "S' \<subseteq> S \<union> row_id ` set allOps" and neq: "S' \<noteq> S"
    by auto
  have "row_id ` set allOps - S' \<subset> row_id ` set allOps - S"
    using sub bound neq by blast
  then have "card (row_id ` set allOps - S') < card (row_id ` set allOps - S)"
    by (intro psubset_card_mono) auto
  then show ?case
    by simp
qed

declare expandUntilFixed.simps [simp del]

definition filterOperationsForRoot :: "string \<Rightarrow> OperationRow list \<Rightarrow> OperationRow list" where
  "filterOperationsForRoot rootId allOps =
     (let belongsToRoot = expandUntilFixed allOps (addDirectChildren rootId allOps {})
      in filter (\<lambda>op. row_id op \<in> belongsToRoot) allOps)"

text \<open>
  The ids that belong to a root, as a closure over a set of rows: the id of a row whose
  \<open>parentRootId\<close> is the root's id, and the id of a row whose \<open>parentOperationId\<close> is a
  non-empty id that belongs.
\<close>

inductive_set belongs :: "string \<Rightarrow> OperationRow set \<Rightarrow> string set"
  for rootId :: string and rows :: "OperationRow set" where
  direct: "op \<in> rows \<Longrightarrow> row_parentRootId op = Some rootId \<Longrightarrow> row_id op \<in> belongs rootId rows"
| nested: "op \<in> rows \<Longrightarrow> row_parentOperationId op = Some p \<Longrightarrow> p \<noteq> [] \<Longrightarrow>
           p \<in> belongs rootId rows \<Longrightarrow> row_id op \<in> belongs rootId rows"

section \<open>Calculation service: collaborators\<close>

subsection \<open>Cache\<close>

text \<open>\<^verbatim>\<open>CacheKeys\<close> and \<^verbatim>\<open>CacheTTL\<close>.\<close>

definition FULL_TREE :: string where "FULL_TREE = ''calc:tree:full''"
definition ROOT_LIST :: string where "ROOT_LIST = ''calc:roots''"
definition ROOT :: "string \<Rightarrow> string" where "ROOT i = ''calc:root:'' @ i"
definition ROOT_OPERATIONS :: "string \<Rightarrow> string" where
  "ROOT_OPERATIONS rootId = ''calc:root:'' @ rootId @ '':ops''"
definition OPERATION :: "string \<Rightarrow> string" where "OPERATION i = ''calc:op:'' @ i"
definition OPERATION_CHILDREN :: "string \<Rightarrow> string" where
  "OPERATION_CHILDREN parentOpId = ''calc:op:'' @ parentOpId @ '':children''"

definition TTL_FULL_TREE :: nat where "TTL_FULL_TREE = 120"
definition TTL_ROOT :: nat where "TTL_ROOT = 600"
definition TTL_OPERATION :: nat where "TTL_OPERATION = 600"

text \<open>The values that the service stores in the cache and reads from it.\<close>

datatype cache_value =
    TreeArray "RootJSON list"
  | RootValue RootJSON
  | OperationValue OperationJSON

text \<open>The calls that the service makes on its collaborators, in the order made.\<close>

datatype event =
    CacheGet string
  | CacheSet string cache_value nat
  | CacheDelete string
  | CacheDeleteMany "string list"
  | Transaction
  | FindAllRootsWithOperations
  | FindRootById string
  | FindOperationById string
  | SaveRoot CalculationRoot
  | SaveOperation CalculationOperation

text \<open>
  The state around the service: the contents of the cache; for the cache calls still to
  come, whether each one fails (\<open>True\<close>: the call rejects and leaves the contents as they
  are; past the end of the list no call fails); the database, of a type that the
  repository chooses; the calls made so far; and what \<^verbatim>\<open>new Date()\<close> and
  \<^verbatim>\<open>crypto.randomUUID()\<close> return. Expiry of entries is not modelled: no time passes
  during a call of the service.
\<close>

record 'db world =
  cache :: "string \<Rightarrow> cache_value option"
  cache_faults :: "bool list"
  db :: 'db
  calls :: "event list"
  env_now :: Date
  env_uuid :: string

definition record_call :: "event \<Rightarrow> 'db world \<Rightarrow> 'db world" where
  "record_call e w = w\<lparr>calls := calls w @ [e]\<rparr>"

text \<open>Whether the next cache call fails, and the state after that call has been accounted.\<close>

definition next_fault :: "'db world \<Rightarrow> bool" where
  "next_fault w = (case cache_faults w of [] \<Rightarrow> False | f # _ \<Rightarrow> f)"

definition consume_fault :: "'db world \<Rightarrow> 'db world" where
  "consume_fault w = w\<lparr>cache_faults := tl (cache_faults w)\<rparr>"

definition cache_get :: "string \<Rightarrow> 'db world \<Rightarrow> (error + cache_value option) \<times> 'db world" where
  "cache_get key w =
     (let w1 = consume_fault (record_call (CacheGet key) w)
      in if next_fault w then (Inl (CacheFailure ''get''), w1)
         else (Inr (cache w key), w1))"

definition cache_set ::
  "string \<Rightarrow> cache_value \<Rightarrow> nat \<Rightarrow> 'db world \<Rightarrow> (error + unit) \<times> 'db world" where
  "cache_set key v ttl w =
     (let w1 = consume_fault (record_call (CacheSet key v ttl) w)
      in if next_fault w then (Inl (CacheFailure ''set''), w1)
         else (Inr (), w1\<lparr>cache := (cache w1)(key \<mapsto> v)\<rparr>))"

definition cache_delete :: "string \<Rightarrow> 'db world \<Rightarrow> (error + unit) \<times> 'db world" where
  "cache_delete key w =
     (let w1 = consume_fault (record_call (CacheDelete key) w)
      in if next_fault w then (Inl (CacheFailure ''delete''), w1)
         else (Inr (), w1\<lparr>cache := (cache w1)(key := None)\<rparr>))"

definition cache_deleteMany :: "string list \<Rightarrow> 'db world \<Rightarrow> (error + unit) \<times> 'db world" where
  "cache_deleteMany keys w =
     (let w1 = consume_fault (record_call (CacheDeleteMany keys) w)
      in if next_fault w then (Inl (CacheFailure ''deleteMany''), w1)
         else (Inr (), w1\<lparr>cache := (\<lambda>k. if k \<in> set keys then None else cache w1 k)\<rparr>))"

text \<open>\<^verbatim>\<open>.catch(() => {})\<close>: the outcome of the call is dropped, the state is kept.\<close>

definition catch_ignore :: "(error + unit) \<times> 'db world \<Rightarrow> 'db world" where
  "catch_ignore r = snd r"

subsection \<open>Repository and unit of work\<close>

text \<open>
  \<open>ICalculationRepository\<close>, over a database of type \<open>'db\<close>: a query returns its
  answer or rejects; a command returns the database after it or rejects.
\<close>

record 'db ICalculationRepository =
  findAllRootsWithOperations :: "'db \<Rightarrow> error + CalculationRoot list"
  findRootById :: "string \<Rightarrow> 'db \<Rightarrow> error + CalculationRoot option"
  findOperationById :: "string \<Rightarrow> 'db \<Rightarrow> error + CalculationOperation option"
  saveRoot :: "CalculationRoot \<Rightarrow> 'db \<Rightarrow> error + 'db"
  saveOperation :: "CalculationOperation \<Rightarrow> 'db \<Rightarrow> error + 'db"

text \<open>
  \<open>IUnitOfWork\<close>: the repository, and the commit that ends a transaction (it returns
  the committed database or rejects).
\<close>

record 'db IUnitOfWork =
  calculationRepository :: "'db ICalculationRepository"
  commit :: "'db \<Rightarrow> error + 'db"

definition call_findAllRootsWithOperations ::
  "'db IUnitOfWork \<Rightarrow> 'db world \<Rightarrow> (error + CalculationRoot list) \<times> 'db world" where
  "call_findAllRootsWithOperations uow w =
     (findAllRootsWithOperations (calculationRepository uow) (db w),
      record_call FindAllRootsWithOperations w)"

definition call_findRootById ::
  "'db IUnitOfWork \<Rightarrow> string \<Rightarrow> 'db world \<Rightarrow> (error + CalculationRoot option) \<times> 'db world" where
  "call_findRootById uow i w =
     (findRootById (calculationRepository uow) i (db w), record_call (FindRootById i) w)"

definition call_findOperationById ::
  "'db IUnitOfWork \<Rightarrow> string \<Rightarrow> 'db world \<Rightarrow> (error + CalculationOperation option) \<times> 'db world" where
  "call_findOperationById uow i w =
     (findOperationById (calculationRepository uow) i (db w),
      record_call (FindOperationById i) w)"

definition call_saveRoot ::
  "'db IUnitOfWork \<Rightarrow> CalculationRoot \<Rightarrow> 'db world \<Rightarrow> (error + unit) \<times> 'db world" where
  "call_saveRoot uow aRoot w =
     (let w1 = record_call (SaveRoot aRoot) w
      in case saveRoot (calculationRepository uow) aRoot (db w) of
           Inl e \<Rightarrow> (Inl e, w1)
         | Inr d \<Rightarrow> (Inr (), w1\<lparr>db := d\<rparr>))"

definition call_saveOperation ::
  "'db IUnitOfWork \<Rightarrow> CalculationOperation \<Rightarrow> 'db world \<Rightarrow> (error + unit) \<times> 'db world" where
  "call_saveOperation uow operation w =
     (let w1 = record_call (SaveOperation operation) w
      in case saveOperation (calculationRepository uow) operation (db w) of
           Inl e \<Rightarrow> (Inl e, w1)
         | Inr d \<Rightarrow> (Inr (), w1\<lparr>db := d\<rparr>))"

text \<open>
  \<^verbatim>\<open>unitOfWork.transaction(fn)\<close>: \<open>fn\<close> runs on the database; when it returns, the
  transaction commits; when it throws, or the commit rejects, the database is rolled
  back to what it was and the error is thrown on.
\<close>

definition transaction ::
  "'db IUnitOfWork \<Rightarrow> ('db world \<Rightarrow> (error + 'a) \<times> 'db world) \<Rightarrow> 'db world
     \<Rightarrow> (error + 'a) \<times> 'db world" where
  "transaction uow fn w =
     (case fn (record_call Transaction w) of
        (Inl e, w1) \<Rightarrow> (Inl e, w1\<lparr>db := db w\<rparr>)
      | (Inr v, w1) \<Rightarrow>
          (case commit uow (db w1) of
             Inl e \<Rightarrow> (Inl e, w1\<lparr>db := db w\<rparr>)
           | Inr d \<Rightarrow> (Inr v, w1\<lparr>db := d\<rparr>)))"

section \<open>Calculation service\<close>

text \<open>
  \<open>CreateRootInput\<close> has the fields of \<open>CreateCalculationRootInput\<close>. The operator of a
  \<open>CreateOperationInput\<close> is the string that \<^verbatim>\<open>Operator.create\<close> receives.
\<close>

type_synonym CreateRootInput = CreateCalculationRootInput

record CreateOperationInput =
  svc_parentRootId :: "string option"
  svc_parentOperationId :: "string option"
  svc_operator :: string
  svc_operand :: number
  svc_userId :: string
  svc_username :: "string option"

definition cacheTreesAsync :: "CalculationRoot list \<Rightarrow> 'db world \<Rightarrow> 'db world" where
  "cacheTreesAsync trees w =
     catch_ignore
       (cache_set FULL_TREE (TreeArray (map CalculationRoot_toJSON trees)) TTL_FULL_TREE w)"

text \<open>
  \<^verbatim>\<open>getFullTree\<close>. A cached value is truthy whenever there is one (an empty array too).
  A cached value under \<open>FULL_TREE\<close> that is not an array has no \<^verbatim>\<open>map\<close>.
\<close>

definition getFullTree ::
  "'db IUnitOfWork \<Rightarrow> 'db world \<Rightarrow> (error + CalculationRoot list) \<times> 'db world" where
  "getFullTree uow w =
     (case cache_get FULL_TREE w of
        (Inl e, w1) \<Rightarrow> (Inl e, w1)
      | (Inr (Some (TreeArray data)), w1) \<Rightarrow> (Inr (reconstituteTrees data), w1)
      | (Inr (Some _), w1) \<Rightarrow> (Inl (TypeError ''data.map is not a function''), w1)
      | (Inr None, w1) \<Rightarrow>
          (case call_findAllRootsWithOperations uow w1 of
             (Inl e, w2) \<Rightarrow> (Inl e, w2)
           | (Inr trees, w2) \<Rightarrow> (Inr trees, cacheTreesAsync trees w2)))"

definition invalidateCacheForNewRoot :: "'db world \<Rightarrow> 'db world" where
  "invalidateCacheForNewRoot w = catch_ignore (cache_deleteMany [ROOT_LIST, FULL_TREE] w)"

text \<open>
  \<^verbatim>\<open>Promise.all([set, delete]).catch(() => {})\<close>: both calls are made, in this order,
  and a failure of either is dropped.
\<close>

definition updateCacheAfterRootCreation :: "CalculationRoot \<Rightarrow> 'db world \<Rightarrow> 'db world" where
  "updateCacheAfterRootCreation aRoot w =
     catch_ignore (cache_delete FULL_TREE
       (catch_ignore
          (cache_set (ROOT (root_id (root_fields aRoot)))
             (RootValue (CalculationRoot_toJSON aRoot)) TTL_ROOT w)))"

definition createRoot ::
  "'db IUnitOfWork \<Rightarrow> CreateRootInput \<Rightarrow> 'db world \<Rightarrow> (error + CalculationRoot) \<times> 'db world" where
  "createRoot uow input w =
     (case transaction uow
             (\<lambda>t. case CalculationRoot_create (env_now t) (env_uuid t)
                          \<lparr>in_value = in_value input, in_userId = in_userId input,
                           in_username = in_username input\<rparr> of
                     Inl e \<Rightarrow> (Inl e, t)
                   | Inr newRoot \<Rightarrow>
                       (case call_saveRoot uow newRoot t of
                          (Inl e, t1) \<Rightarrow> (Inl e, t1)
                        | (Inr _, t1) \<Rightarrow> (Inr newRoot, t1)))
             (invalidateCacheForNewRoot w) of
        (Inr aRoot, w2) \<Rightarrow> (Inr aRoot, updateCacheAfterRootCreation aRoot w2)
      | (Inl e, w2) \<Rightarrow> (Inl e, invalidateCacheForNewRoot w2))"

definition getParentValue ::
  "'db IUnitOfWork \<Rightarrow> CreateOperationInput \<Rightarrow> 'db world \<Rightarrow> (error + number) \<times> 'db world" where
  "getParentValue uow input w =
     (if truthy (svc_parentRootId input) then
        (case call_findRootById uow (the (svc_parentRootId input)) w of
           (Inl e, w1) \<Rightarrow> (Inl e, w1)
         | (Inr None, w1) \<Rightarrow> (Inl (ParentRootNotFound (the (svc_parentRootId input))), w1)
         | (Inr (Some aRoot), w1) \<Rightarrow> (Inr (root_value (root_fields aRoot)), w1))
      else if truthy (svc_parentOperationId input) then
        (case call_findOperationById uow (the (svc_parentOperationId input)) w of
           (Inl e, w1) \<Rightarrow> (Inl e, w1)
         | (Inr None, w1) \<Rightarrow>
             (Inl (ParentOperationNotFound (the (svc_parentOperationId input))), w1)
         | (Inr (Some operation), w1) \<Rightarrow> (Inr (op_result (op_fields operation)), w1))
      else (Inl MissingParent, w))"

definition keysToInvalidate :: "CreateOperationInput \<Rightarrow> string list" where
  "keysToInvalidate input =
     [FULL_TREE]
     @ (if truthy (svc_parentRootId input)
        then [ROOT (the (svc_parentRootId input)),
              ROOT_OPERATIONS (the (svc_parentRootId input))]
        else [])
     @ (if truthy (svc_parentOperationId input)
        then [OPERATION (the (svc_parentOperationId input)),
              OPERATION_CHILDREN (the (svc_parentOperationId input))]
        else [])"

definition invalidateCacheForNewOperation :: "CreateOperationInput \<Rightarrow> 'db world \<Rightarrow> 'db world" where
  "invalidateCacheForNewOperation input w =
     catch_ignore (cache_deleteMany (keysToInvalidate input) w)"

definition updateCacheAfterOperationCreation ::
  "CalculationOperation \<Rightarrow> 'db world \<Rightarrow> 'db world" where
  "updateCacheAfterOperationCreation operation w =
     catch_ignore (cache_delete FULL_TREE
       (catch_ignore
          (cache_set (OPERATION (op_id (op_fields operation)))
             (OperationValue (CalculationOperation_toJSON operation)) TTL_OPERATION w)))"

definition createOperation ::
  "'db IUnitOfWork \<Rightarrow> CreateOperationInput \<Rightarrow> 'db world
     \<Rightarrow> (error + CalculationOperation) \<times> 'db world" where
  "createOperation uow input w =
     (if \<not> truthy (svc_parentRootId input) \<and> \<not> truthy (svc_parentOperationId input)
        then (Inl MissingParent, w)
      else if truthy (svc_parentRootId input) \<and> truthy (svc_parentOperationId input)
        then (Inl AmbiguousParent, w)
      else
        (case transaction uow
                (\<lambda>t. case getParentValue uow input t of
                        (Inl e, t1) \<Rightarrow> (Inl e, t1)
                      | (Inr theParentValue, t1) \<Rightarrow>
                          (case Operator_create (svc_operator input) of
                             Inl e \<Rightarrow> (Inl e, t1)
                           | Inr theOperator \<Rightarrow>
                               (case CalculationOperation_create (env_now t1) (env_uuid t1)
                                       \<lparr>parentRootId = svc_parentRootId input,
                                        parentOperationId = svc_parentOperationId input,
                                        operator = theOperator,
                                        operand = svc_operand input,
                                        parentValue = theParentValue,
                                        userId = svc_userId input,
                                        username = svc_username input\<rparr> of
                                  Inl e \<Rightarrow> (Inl e, t1)
                                | Inr newOperation \<Rightarrow>
                                    (case call_saveOperation uow newOperation t1 of
                                       (Inl e, t2) \<Rightarrow> (Inl e, t2)
                                     | (Inr _, t2) \<Rightarrow> (Inr newOperation, t2)))))
                (invalidateCacheForNewOperation input w) of
           (Inr operation, w2) \<Rightarrow>
             (Inr operation, updateCacheAfterOperationCreation operation w2)
         | (Inl e, w2) \<Rightarrow> (Inl e, invalidateCacheForNewOperation input w2)))"

section \<open>Descendants of an operation\<close>

text \<open>
  The operations of the subtree of an operation, each listed once: the operation itself,
  then the operations of the subtrees of its children.
\<close>

fun subtree_nodes :: "CalculationOperation \<Rightarrow> CalculationOperation list" where
  "subtree_nodes (CalculationOperation f cs) =
     CalculationOperation f cs # concat (map subtree_nodes cs)"

section \<open>Example data and collaborators\<close>

text \<open>
  A repository that keeps the roots and the operations in two lists, and a unit of work
  over it whose commit succeeds; a second unit of work whose \<^verbatim>\<open>saveRoot\<close> rejects with
  "DB Error".
\<close>

definition memory_repository ::
  "(CalculationRoot list \<times> CalculationOperation list) ICalculationRepository" where
  "memory_repository =
     \<lparr>findAllRootsWithOperations = (\<lambda>d. Inr (fst d)),
      findRootById = (\<lambda>i d. Inr (find (\<lambda>r. root_id (root_fields r) = i) (fst d))),
      findOperationById = (\<lambda>i d. Inr (find (\<lambda>operation. op_id (op_fields operation) = i) (snd d))),
      saveRoot = (\<lambda>r d. Inr (fst d @ [r], snd d)),
      saveOperation = (\<lambda>operation d. Inr (fst d, snd d @ [operation]))\<rparr>"

definition memory_uow :: "(CalculationRoot list \<times> CalculationOperation list) IUnitOfWork" where
  "memory_uow = \<lparr>calculationRepository = memory_repository, commit = Inr\<rparr>"

definition failing_uow :: "(CalculationRoot list \<times> CalculationOperation list) IUnitOfWork" where
  "failing_uow =
     \<lparr>calculationRepository =
        memory_repository\<lparr>saveRoot := (\<lambda>r d. Inl (PersistenceFailure ''DB Error''))\<rparr>,
      commit = Inr\<rparr>"

definition example_root :: CalculationRoot where
  "example_root =
     CalculationRoot
       \<lparr>root_id = ''root-123'', root_value = number_of_int 100, root_userId = ''user-123'',
        root_username = None, root_createdAt = Date (Some 0), root_updatedAt = Date (Some 0)\<rparr> []"

definition example_operation :: "string \<Rightarrow> string option \<Rightarrow> string option \<Rightarrow>
    CalculationOperation list \<Rightarrow> CalculationOperation" where
  "example_operation i parentRoot parentOp cs =
     CalculationOperation
       \<lparr>op_id = i, op_parentRootId = parentRoot, op_parentOperationId = parentOp,
        op_operator = Operator ADD, op_operand = number_of_int 50,
        op_result = number_of_int 150, op_userId = ''user-123'', op_username = None,
        op_createdAt = Date (Some 0), op_updatedAt = Date (Some 0)\<rparr> cs"

definition example_world ::
  "(CalculationRoot list \<times> CalculationOperation list) world" where
  "example_world =
     \<lparr>cache = (\<lambda>k. None), cache_faults = [],
      db = ([example_root], [example_operation ''parent-op-123'' (Some ''root-123'') None []]),
      calls = [], env_now = Date (Some 1000), env_uuid = ''op-uuid-1''\<rparr>"

definition example_row :: "string \<Rightarrow> string option \<Rightarrow> string option \<Rightarrow> OperationRow" where
  "example_row i parentRoot parentOp =
     \<lparr>row_id = i, row_parentRootId = parentRoot, row_parentOperationId = parentOp,
      row_operator = ADD, row_operand = ''1'', row_result = ''1'', row_userId = ''user-123'',
      row_username = None, row_createdAt = Date (Some 0), row_updatedAt = Date (Some 0)\<rparr>"

definition example_input ::
  "string option \<Rightarrow> string option \<Rightarrow> OperatorType \<Rightarrow> int \<Rightarrow> int
     \<Rightarrow> CreateCalculationOperationInput" where
  "example_input parentRoot parentOp t x p =
     \<lparr>parentRootId = parentRoot, parentOperationId = parentOp, operator = Operator t,
      operand = number_of_int x, parentValue = number_of_int p,
      userId = ''user-123'', username = None\<rparr>"

section \<open>Properties of the number arithmetic\<close>

lemma pow2_power_int: "pow2 e = power_int 2 e"
  by (simp add: pow2_def power_int_def power_divide inverse_eq_divide)

lemma pow2_pos: "0 < pow2 e"
  by (simp add: pow2_def)

lemma pow2_add: "pow2 (a + b) = pow2 a * pow2 b"
  by (simp add: pow2_power_int power_int_add)

lemma pow2_strict_mono: "a < b \<Longrightarrow> pow2 a < pow2 b"
  by (simp add: pow2_power_int power_int_strict_increasing)

lemma pow2_less_iff: "pow2 a < pow2 b \<longleftrightarrow> a < b"
  using pow2_strict_mono [of a b] pow2_strict_mono [of b a]
  by (cases a b rule: linorder_cases) auto

lemma pow2_le_iff: "pow2 a \<le> pow2 b \<longleftrightarrow> a \<le> b"
  using pow2_less_iff [of b a] by (simp add: not_less [symmetric])

lemma pow2_nat: "pow2 (int n) = 2 ^ n"
  by (simp add: pow2_def)

lemma pow2_diff: "pow2 (a - b) = pow2 a / pow2 b"
proof -
  have "pow2 (a - b) * pow2 b = pow2 a"
    by (simp flip: pow2_add)
  then show ?thesis
    using pow2_pos [of b] by (simp add: field_simps)
qed

text \<open>The exponent that \<open>ilog2\<close> computes brackets its argument.\<close>

lemma ilog2_bounds:
  assumes "0 < q"
  shows "pow2 (ilog2 q) \<le> q \<and> q < pow2 (ilog2 q + 1)"
proof -
  obtain n d where nd: "quotient_of q = (n, d)"
    by (cases "quotient_of q")
  then have d: "0 < d" and q: "q = of_int n / of_int d"
    by (auto dest: quotient_of_denom_pos quotient_of_div)
  with assms have n: "0 < n"
    by (simp add: zero_less_divide_iff)
  have bn: "0 \<le> bitlen n - 1" "0 \<le> bitlen d - 1"
    using n d by (auto simp: bitlen_alt_def)
  from bitlen_bounds [OF n] have "(2::int) ^ nat (bitlen n - 1) \<le> n" "n < 2 ^ nat (bitlen n)"
    by auto
  then have "(of_int (2 ^ nat (bitlen n - 1)) :: rat) \<le> of_int n"
       "(of_int n :: rat) < of_int (2 ^ nat (bitlen n))"
    by (simp_all only: of_int_le_iff of_int_less_iff)
  then have nb: "pow2 (bitlen n - 1) \<le> of_int n" "of_int n < pow2 (bitlen n)"
    using bn bitlen_nonneg [of n] by (simp_all add: pow2_def)
  from bitlen_bounds [OF d] have "(2::int) ^ nat (bitlen d - 1) \<le> d" "d < 2 ^ nat (bitlen d)"
    by auto
  then have "(of_int (2 ^ nat (bitlen d - 1)) :: rat) \<le> of_int d"
       "(of_int d :: rat) < of_int (2 ^ nat (bitlen d))"
    by (simp_all only: of_int_le_iff of_int_less_iff)
  then have db: "pow2 (bitlen d - 1) \<le> of_int d" "of_int d < pow2 (bitlen d)"
    using bn bitlen_nonneg [of d] by (simp_all add: pow2_def)
  let ?e = "bitlen n - bitlen d"
  have dpos: "(0::rat) < of_int d"
    using d by simp
  have "pow2 (?e - 1) * of_int d < pow2 (?e - 1) * pow2 (bitlen d)"
    using db(2) pow2_pos [of "?e - 1"] by simp
  also have "\<dots> = pow2 (bitlen n - 1)"
    by (simp flip: pow2_add)
  also have "\<dots> \<le> of_int n"
    by (rule nb(1))
  finally have low: "pow2 (?e - 1) < q"
    using dpos by (simp add: q field_simps)
  have "of_int n < pow2 (bitlen n)"
    by (rule nb(2))
  also have "\<dots> = pow2 (?e + 1) * pow2 (bitlen d - 1)"
    by (simp flip: pow2_add)
  also have "\<dots> \<le> pow2 (?e + 1) * of_int d"
    using db(1) pow2_pos [of "?e + 1"] by simp
  finally have high: "q < pow2 (?e + 1)"
    using dpos by (simp add: q field_simps)
  show ?thesis
  proof (cases "pow2 ?e \<le> q")
    case True
    with high show ?thesis
      by (simp add: ilog2_def nd Let_def)
  next
    case False
    with low show ?thesis
      by (simp add: ilog2_def nd Let_def)
  qed
qed

lemma round_half_even_of_int: "round_half_even (of_int k) = k"
  by (simp add: round_half_even_def)

text \<open>
  A magnitude that is a binary64 value (an integer below \<open>2^53\<close> times a power of two
  within the exponent range) is rounded to itself.
\<close>

lemma round_binary64_exact:
  assumes m: "0 \<le> m" "m < 2 ^ 53" and e: "- 1074 \<le> e" "e \<le> 971"
  shows "round_binary64 s (of_int m * pow2 e) = Finite s (of_int m * pow2 e)"
proof (cases "m = 0")
  case True
  then show ?thesis
    by (simp add: round_binary64_def)
next
  case False
  let ?q = "of_int m * pow2 e :: rat"
  from False m have mpos: "0 < m" by simp
  then have qpos: "0 < ?q"
    using pow2_pos [of e] by simp
  let ?p = "max (ilog2 ?q) (- 1022) - 52"
  have "(of_int m :: rat) < of_int (2 ^ 53)"
    using m(2) by (simp only: of_int_less_iff)
  then have m53: "(of_int m :: rat) < pow2 53"
    by (simp add: pow2_def)
  have "pow2 (ilog2 ?q) \<le> ?q"
    using ilog2_bounds [OF qpos] by simp
  also have "?q < pow2 53 * pow2 e"
    using m53 pow2_pos [of e] by simp
  also have "\<dots> = pow2 (53 + e)"
    by (simp add: pow2_add)
  finally have "ilog2 ?q < 53 + e"
    by (simp add: pow2_less_iff)
  with e have pe: "?p \<le> e"
    by simp
  have "pow2 e = pow2 (e - ?p) * pow2 ?p"
    by (simp flip: pow2_add)
  also have "pow2 (e - ?p) = of_int (2 ^ nat (e - ?p))"
    using pe by (simp add: pow2_def)
  finally have split: "?q = of_int (m * 2 ^ nat (e - ?p)) * pow2 ?p"
    by simp
  have "?q / pow2 ?p = of_int (m * 2 ^ nat (e - ?p))"
    using pow2_pos [of ?p] by (subst split) simp
  then have rounded: "of_int (round_half_even (?q / pow2 ?p)) * pow2 ?p = ?q"
    by (simp only: round_half_even_of_int split [symmetric])
  have "?q < pow2 53 * pow2 e"
    using m53 pow2_pos [of e] by simp
  also have "\<dots> = pow2 (53 + e)"
    by (simp add: pow2_add)
  also have "\<dots> \<le> pow2 1024"
    using e by (simp add: pow2_le_iff)
  finally have small: "\<not> pow2 1024 \<le> ?q"
    by simp
  from False pow2_pos [of e] have "?q \<noteq> 0" by simp
  then show ?thesis
    unfolding round_binary64_def Let_def rounded using small by simp
qed

text \<open>
  The arithmetic on finite numbers returns the exact result whenever that result is a
  binary64 value.
\<close>

lemma number_add_exact:
  assumes "0 \<le> m" "m < 2 ^ 53" "- 1074 \<le> e" "e \<le> 971"
    and "\<bar>signed s x + signed t y\<bar> = of_int m * pow2 e"
  shows "number_add (Finite s x) (Finite t y) =
     (if signed s x + signed t y = 0 then Finite (s \<and> t) 0
      else Finite (signed s x + signed t y < 0) \<bar>signed s x + signed t y\<bar>)"
  using round_binary64_exact [OF assms(1-4), of "signed s x + signed t y < 0"] assms(5)
  by (simp add: Let_def)

lemma number_multiply_exact:
  assumes "0 \<le> m" "m < 2 ^ 53" "- 1074 \<le> e" "e \<le> 971"
    and "x * y = of_int m * pow2 e"
  shows "number_multiply (Finite s x) (Finite t y) = Finite (s \<noteq> t) (x * y)"
  using round_binary64_exact [OF assms(1-4), of "s \<noteq> t"] assms(5)
  by simp

lemma number_divide_exact:
  assumes "0 \<le> m" "m < 2 ^ 53" "- 1074 \<le> e" "e \<le> 971"
    and "y \<noteq> 0" and "x / y = of_int m * pow2 e"
  shows "number_divide (Finite s x) (Finite t y) = Finite (s \<noteq> t) (x / y)"
  using round_binary64_exact [OF assms(1-4), of "s \<noteq> t"] assms(5,6)
  by simp

lemma signed_zero: "signed s 0 = 0"
  by (simp add: signed_def)

lemma signed_abs_sign: "signed (r < 0) \<bar>r\<bar> = r"
  by (simp add: signed_def)

lemma signed_mult: "signed s x * signed t y = signed (s \<noteq> t) (x * y)"
  by (simp add: signed_def)

lemma signed_divide: "signed s x / signed t y = signed (s \<noteq> t) (x / y)"
  by (simp add: signed_def)

lemma abs_signed: "0 \<le> x \<Longrightarrow> \<bar>signed s x\<bar> = x"
  by (simp add: signed_def)

lemma number_add_value:
  assumes "0 \<le> m" "m < 2 ^ 53" "- 1074 \<le> e" "e \<le> 971"
    and "\<bar>signed s x + signed t y\<bar> = of_int m * pow2 e"
  shows "number_value (number_add (Finite s x) (Finite t y)) = Some (signed s x + signed t y)"
  by (subst number_add_exact [OF assms]) (simp add: signed_abs_sign signed_zero)

lemma number_subtract_value:
  assumes "0 \<le> m" "m < 2 ^ 53" "- 1074 \<le> e" "e \<le> 971"
    and "\<bar>signed s x - signed t y\<bar> = of_int m * pow2 e"
  shows "number_value (number_subtract (Finite s x) (Finite t y))
           = Some (signed s x - signed t y)"
proof -
  have neg: "signed (\<not> t) y = - signed t y"
    by (simp add: signed_def)
  with assms(5) have "\<bar>signed s x + signed (\<not> t) y\<bar> = of_int m * pow2 e"
    by simp
  from number_add_value [OF assms(1-4) this] neg show ?thesis
    by (simp add: number_subtract_def)
qed

lemma number_multiply_value:
  assumes "0 \<le> m" "m < 2 ^ 53" "- 1074 \<le> e" "e \<le> 971" and "0 \<le> x" "0 \<le> y"
    and "\<bar>signed s x * signed t y\<bar> = of_int m * pow2 e"
  shows "number_value (number_multiply (Finite s x) (Finite t y))
           = Some (signed s x * signed t y)"
proof -
  from assms(5-7) have "x * y = of_int m * pow2 e"
    by (simp add: abs_mult abs_signed)
  from number_multiply_exact [OF assms(1-4) this] show ?thesis
    by (simp add: signed_mult)
qed

lemma number_divide_value:
  assumes "0 \<le> m" "m < 2 ^ 53" "- 1074 \<le> e" "e \<le> 971" and "0 \<le> x" "0 < y"
    and "\<bar>signed s x / signed t y\<bar> = of_int m * pow2 e"
  shows "number_value (number_divide (Finite s x) (Finite t y))
           = Some (signed s x / signed t y)"
proof -
  from assms(5-7) have "x / y = of_int m * pow2 e"
    by (simp add: abs_signed)
  from number_divide_exact [OF assms(1-4) _ this] assms(6) show ?thesis
    by (simp add: signed_divide)
qed

lemma number_add_100_50:
  "number_add (number_of_int 100) (number_of_int 50) = number_of_int 150"
  using number_add_exact [of 150 0 False 100 False 50]
  by (simp add: number_of_int_def signed_def pow2_def)

lemma number_multiply_150_2:
  "number_multiply (number_of_int 150) (number_of_int 2) = number_of_int 300"
  using number_multiply_exact [of 300 0 150 2 False False]
  by (simp add: number_of_int_def pow2_def)

lemma number_divide_100_4:
  "number_divide (number_of_int 100) (number_of_int 4) = number_of_int 25"
  using number_divide_exact [of 25 0 4 100 False False]
  by (simp add: number_of_int_def pow2_def)

lemma number_subtract_5_3:
  "number_subtract (number_of_int 5) (number_of_int 3) = number_of_int 2"
  using number_add_exact [of 2 0 False 5 True 3]
  by (simp add: number_subtract_def number_of_int_def signed_def pow2_def)

lemma number_divide_10_3:
  "number_divide (number_of_int 10) (number_of_int 3)
     = Finite False (7505999378950827 / 2 ^ 51)"
  by code_simp

section \<open>Properties of the operator\<close>

text \<open>
  Claim C2. For all numbers \<open>a\<close> and \<open>b\<close>, \<^verbatim>\<open>calculate\<close> returns \<open>a + b\<close> for ADD,
  \<open>a - b\<close> for SUBTRACT, \<open>a * b\<close> for MULTIPLY, and \<open>a / b\<close> for DIVIDE when \<open>b\<close> is not
  zero, in the arithmetic of the language: on finite operands, whenever the exact sum,
  difference, product or quotient of the two values is a binary64 value, that value is
  returned; NaN operands give NaN; an infinity plus a finite number is that infinity, an
  infinity minus itself is NaN, an infinity times a non-zero finite number is an
  infinity, a finite number divided by an infinity is zero. DIVIDE with \<open>b\<close> equal to
  zero (\<open>+0\<close> or \<open>-0\<close>) fails with the division-by-zero error, whatever \<open>a\<close> is: the test
  comes before the division, so no infinity is returned.
\<close>

theorem calculate_correct:
  "calculate (Operator ADD) a b = Inr (number_add a b) \<and>
   calculate (Operator SUBTRACT) a b = Inr (number_subtract a b) \<and>
   calculate (Operator MULTIPLY) a b = Inr (number_multiply a b) \<and>
   ((\<forall>s. b \<noteq> Finite s 0) \<longrightarrow>
      calculate (Operator DIVIDE) a b = Inr (number_divide a b)) \<and>
   ((\<exists>s. b = Finite s 0) \<longrightarrow>
      calculate (Operator DIVIDE) a b = Inl DivisionByZero \<and>
      (\<forall>t. calculate (Operator DIVIDE) a b \<noteq> Inr (Infinity t))) \<and>
   (0 \<le> x \<and> 0 \<le> y \<and> 0 \<le> m \<and> m < 2 ^ 53 \<and> - 1074 \<le> e \<and> e \<le> 971 \<longrightarrow>
      (\<bar>signed s x + signed t y\<bar> = of_int m * pow2 e \<longrightarrow>
         (\<exists>r. calculate (Operator ADD) (Finite s x) (Finite t y) = Inr r \<and>
              number_value r = Some (signed s x + signed t y))) \<and>
      (\<bar>signed s x - signed t y\<bar> = of_int m * pow2 e \<longrightarrow>
         (\<exists>r. calculate (Operator SUBTRACT) (Finite s x) (Finite t y) = Inr r \<and>
              number_value r = Some (signed s x - signed t y))) \<and>
      (\<bar>signed s x * signed t y\<bar> = of_int m * pow2 e \<longrightarrow>
         (\<exists>r. calculate (Operator MULTIPLY) (Finite s x) (Finite t y) = Inr r \<and>
              number_value r = Some (signed s x * signed t y))) \<and>
      (y \<noteq> 0 \<and> \<bar>signed s x / signed t y\<bar> = of_int m * pow2 e \<longrightarrow>
         (\<exists>r. calculate (Operator DIVIDE) (Finite s x) (Finite t y) = Inr r \<and>
              number_value r = Some (signed s x / signed t y)))) \<and>
   (a = NaN \<or> b = NaN \<longrightarrow>
      calculate (Operator ADD) a b = Inr NaN \<and>
      calculate (Operator SUBTRACT) a b = Inr NaN \<and>
      calculate (Operator MULTIPLY) a b = Inr NaN \<and>
      ((\<forall>s. b \<noteq> Finite s 0) \<longrightarrow> calculate (Operator DIVIDE) a b = Inr NaN)) \<and>
   calculate (Operator ADD) (Infinity s) (Finite t y) = Inr (Infinity s) \<and>
   calculate (Operator SUBTRACT) (Infinity s) (Infinity s) = Inr NaN \<and>
   (y \<noteq> 0 \<longrightarrow>
      calculate (Operator MULTIPLY) (Infinity s) (Finite t y) = Inr (Infinity (s \<noteq> t))) \<and>
   calculate (Operator DIVIDE) (Finite s x) (Infinity t) = Inr (Finite (s \<noteq> t) 0)"
proof -
  have dispatch: "calculate (Operator ADD) a b = Inr (number_add a b)"
    "calculate (Operator SUBTRACT) a b = Inr (number_subtract a b)"
    "calculate (Operator MULTIPLY) a b = Inr (number_multiply a b)"
    by simp_all
  have division: "(\<forall>s. b \<noteq> Finite s 0) \<longrightarrow>
      calculate (Operator DIVIDE) a b = Inr (number_divide a b)"
    "(\<exists>s. b = Finite s 0) \<longrightarrow>
      calculate (Operator DIVIDE) a b = Inl DivisionByZero \<and>
      (\<forall>t. calculate (Operator DIVIDE) a b \<noteq> Inr (Infinity t))"
    by (cases b; auto)+
  have exact: "0 \<le> x \<and> 0 \<le> y \<and> 0 \<le> m \<and> m < 2 ^ 53 \<and> - 1074 \<le> e \<and> e \<le> 971 \<longrightarrow>
      (\<bar>signed s x + signed t y\<bar> = of_int m * pow2 e \<longrightarrow>
         (\<exists>r. calculate (Operator ADD) (Finite s x) (Finite t y) = Inr r \<and>
              number_value r = Some (signed s x + signed t y))) \<and>
      (\<bar>signed s x - signed t y\<bar> = of_int m * pow2 e \<longrightarrow>
         (\<exists>r. calculate (Operator SUBTRACT) (Finite s x) (Finite t y) = Inr r \<and>
              number_value r = Some (signed s x - signed t y))) \<and>
      (\<bar>signed s x * signed t y\<bar> = of_int m * pow2 e \<longrightarrow>
         (\<exists>r. calculate (Operator MULTIPLY) (Finite s x) (Finite t y) = Inr r \<and>
              number_value r = Some (signed s x * signed t y))) \<and>
      (y \<noteq> 0 \<and> \<bar>signed s x / signed t y\<bar> = of_int m * pow2 e \<longrightarrow>
         (\<exists>r. calculate (Operator DIVIDE) (Finite s x) (Finite t y) = Inr r \<and>
              number_value r = Some (signed s x / signed t y)))"
  proof (intro impI conjI; elim conjE)
    assume r: "0 \<le> m" "m < 2 ^ 53" "- 1074 \<le> e" "e \<le> 971"
    {
      assume "\<bar>signed s x + signed t y\<bar> = of_int m * pow2 e"
      from number_add_value [OF r this]
      show "\<exists>r. calculate (Operator ADD) (Finite s x) (Finite t y) = Inr r \<and>
              number_value r = Some (signed s x + signed t y)"
        by (simp del: number_add.simps)
    }
    {
      assume "\<bar>signed s x - signed t y\<bar> = of_int m * pow2 e"
      from number_subtract_value [OF r this]
      show "\<exists>r. calculate (Operator SUBTRACT) (Finite s x) (Finite t y) = Inr r \<and>
              number_value r = Some (signed s x - signed t y)"
        by simp
    }
    assume xy: "0 \<le> x" "0 \<le> y"
    {
      assume "\<bar>signed s x * signed t y\<bar> = of_int m * pow2 e"
      from number_multiply_value [OF r xy this]
      show "\<exists>r. calculate (Operator MULTIPLY) (Finite s x) (Finite t y) = Inr r \<and>
              number_value r = Some (signed s x * signed t y)"
        by (simp del: number_multiply.simps)
    }
    {
      assume "y \<noteq> 0" and "\<bar>signed s x / signed t y\<bar> = of_int m * pow2 e"
      with xy have "0 < y" by simp
      from number_divide_value [OF r xy(1) this \<open>\<bar>signed s x / signed t y\<bar> = of_int m * pow2 e\<close>]
        \<open>y \<noteq> 0\<close>
      show "\<exists>r. calculate (Operator DIVIDE) (Finite s x) (Finite t y) = Inr r \<and>
              number_value r = Some (signed s x / signed t y)"
        by (simp del: number_divide.simps)
    }
  qed
  have nan: "a = NaN \<or> b = NaN \<longrightarrow>
      calculate (Operator ADD) a b = Inr NaN \<and>
      calculate (Operator SUBTRACT) a b = Inr NaN \<and>
      calculate (Operator MULTIPLY) a b = Inr NaN \<and>
      ((\<forall>s. b \<noteq> Finite s 0) \<longrightarrow> calculate (Operator DIVIDE) a b = Inr NaN)"
    by (cases a; cases b) (auto simp: number_subtract_def)
  have inf: "calculate (Operator ADD) (Infinity s) (Finite t y) = Inr (Infinity s)"
    "calculate (Operator SUBTRACT) (Infinity s) (Infinity s) = Inr NaN"
    "y \<noteq> 0 \<longrightarrow>
      calculate (Operator MULTIPLY) (Infinity s) (Finite t y) = Inr (Infinity (s \<noteq> t))"
    "calculate (Operator DIVIDE) (Finite s x) (Infinity t) = Inr (Finite (s \<noteq> t) 0)"
    by (simp_all add: number_subtract_def)
  from dispatch division exact nan inf show ?thesis
    by blast
qed

theorem calculate_correct_witness:
  "calculate (Operator ADD) (number_of_int 100) (number_of_int 50) = Inr (number_of_int 150) \<and>
   calculate (Operator SUBTRACT) (number_of_int 5) (number_of_int 3) = Inr (number_of_int 2) \<and>
   calculate (Operator MULTIPLY) (number_of_int 150) (number_of_int 2)
     = Inr (number_of_int 300) \<and>
   calculate (Operator DIVIDE) (number_of_int 100) (number_of_int 4) = Inr (number_of_int 25) \<and>
   calculate (Operator DIVIDE) (number_of_int 10) (number_of_int 3)
     = Inr (Finite False (7505999378950827 / 2 ^ 51)) \<and>
   (\<exists>r. calculate (Operator SUBTRACT) (Finite False (11 / 2)) (Finite False (5 / 2)) = Inr r \<and>
        number_value r = Some 3) \<and>
   (\<exists>r. calculate (Operator SUBTRACT) (Finite False 3) (Finite False 5) = Inr r \<and>
        number_value r = Some (- 2)) \<and>
   (\<exists>r. calculate (Operator DIVIDE) (Finite True 1) (Finite False 8) = Inr r \<and>
        number_value r = Some (- 1 / 8)) \<and>
   calculate (Operator DIVIDE) (number_of_int 1) (Finite True 0) = Inl DivisionByZero \<and>
   calculate (Operator MULTIPLY) NaN (number_of_int 2) = Inr NaN"
proof (intro conjI)
  show "calculate (Operator ADD) (number_of_int 100) (number_of_int 50) = Inr (number_of_int 150)"
    using calculate_correct [of "number_of_int 100" "number_of_int 50"]
    by (simp only: number_add_100_50)
  show "calculate (Operator SUBTRACT) (number_of_int 5) (number_of_int 3) = Inr (number_of_int 2)"
    using calculate_correct [of "number_of_int 5" "number_of_int 3"]
    by (simp only: number_subtract_5_3)
  show "calculate (Operator MULTIPLY) (number_of_int 150) (number_of_int 2)
     = Inr (number_of_int 300)"
    using calculate_correct [of "number_of_int 150" "number_of_int 2"]
    by (simp only: number_multiply_150_2)
  have nz: "\<forall>s. number_of_int 4 \<noteq> Finite s 0" "\<forall>s. number_of_int 3 \<noteq> Finite s 0"
    by (simp_all add: number_of_int_def)
  show "calculate (Operator DIVIDE) (number_of_int 100) (number_of_int 4) = Inr (number_of_int 25)"
    using calculate_correct [of "number_of_int 100" "number_of_int 4"] nz(1)
    by (simp only: number_divide_100_4 simp_thms)
  show "calculate (Operator DIVIDE) (number_of_int 10) (number_of_int 3)
     = Inr (Finite False (7505999378950827 / 2 ^ 51))"
    using calculate_correct [of "number_of_int 10" "number_of_int 3"] nz(2)
    by (simp only: number_divide_10_3 simp_thms)
  have "\<bar>signed False (11 / 2) - signed False (5 / 2)\<bar> = of_int 3 * pow2 0"
    by (simp add: signed_def pow2_def)
  with calculate_correct [where x = "11 / 2" and y = "5 / 2" and s = False and t = False
         and m = 3 and e = 0]
  have "\<exists>r. calculate (Operator SUBTRACT) (Finite False (11 / 2)) (Finite False (5 / 2)) = Inr r \<and>
        number_value r = Some (signed False (11 / 2) - signed False (5 / 2))"
    by simp
  then show "\<exists>r. calculate (Operator SUBTRACT) (Finite False (11 / 2)) (Finite False (5 / 2)) = Inr r \<and>
        number_value r = Some 3"
    by (simp add: signed_def del: calculate.simps)
  have "\<bar>signed False 3 - signed False 5\<bar> = of_int 2 * pow2 0"
    by (simp add: signed_def pow2_def)
  with calculate_correct [where x = 3 and y = 5 and s = False and t = False
         and m = 2 and e = 0]
  have "\<exists>r. calculate (Operator SUBTRACT) (Finite False 3) (Finite False 5) = Inr r \<and>
        number_value r = Some (signed False 3 - signed False 5)"
    by simp
  then show "\<exists>r. calculate (Operator SUBTRACT) (Finite False 3) (Finite False 5) = Inr r \<and>
        number_value r = Some (- 2)"
    by (simp add: signed_def del: calculate.simps)
  have "\<bar>signed True 1 / signed False 8\<bar> = of_int 1 * pow2 (- 3)"
    by (simp add: signed_def pow2_def)
  with calculate_correct [where x = 1 and y = 8 and s = True and t = False
         and m = 1 and e = "- 3"]
  have "\<exists>r. calculate (Operator DIVIDE) (Finite True 1) (Finite False 8) = Inr r \<and>
        number_value r = Some (signed True 1 / signed False 8)"
    by simp
  then show "\<exists>r. calculate (Operator DIVIDE) (Finite True 1) (Finite False 8) = Inr r \<and>
        number_value r = Some (- 1 / 8)"
    by (simp add: signed_def del: calculate.simps)
  show "calculate (Operator DIVIDE) (number_of_int 1) (Finite True 0) = Inl DivisionByZero"
    using calculate_correct [of "Finite True 0" "number_of_int 1"]
    by simp
  show "calculate (Operator MULTIPLY) NaN (number_of_int 2) = Inr NaN"
    using calculate_correct [of NaN "number_of_int 2"]
    by simp
qed

text \<open>
  Claim C8. \<^verbatim>\<open>Operator.create(raw)\<close> succeeds exactly when \<open>raw\<close> is one of the four names
  "ADD", "SUBTRACT", "MULTIPLY", "DIVIDE", compared exactly, and then gives the operator of
  that name; for every other string it fails with \<open>InvalidOperator raw\<close>. The lower-case
  "multiply" is rejected.
\<close>

theorem Operator_create_exact:
  "(raw \<in> {''ADD'', ''SUBTRACT'', ''MULTIPLY'', ''DIVIDE''} \<longrightarrow>
      (\<exists>t. Operator_create raw = Inr (Operator t) \<and> OperatorType_string t = raw)) \<and>
   (raw \<notin> {''ADD'', ''SUBTRACT'', ''MULTIPLY'', ''DIVIDE''} \<longrightarrow>
      Operator_create raw = Inl (InvalidOperator raw)) \<and>
   Operator_create ''multiply'' = Inl (InvalidOperator ''multiply'')"
  by (auto simp: Operator_create_def OPERATORS_def as_OperatorType_def)

theorem Operator_create_exact_witness:
  "Operator_create ''MULTIPLY'' = Inr (Operator MULTIPLY) \<and>
   Operator_create ''Add'' = Inl (InvalidOperator ''Add'')"
  using Operator_create_exact [of "''MULTIPLY''"] Operator_create_exact [of "''Add''"]
  by (auto simp: Operator_create_def OPERATORS_def as_OperatorType_def)

section \<open>Properties of the entities\<close>

lemma foldl_add_sum_list:
  "foldl (\<lambda>sum op. sum + 1 + g op) (a::nat) ops = a + sum_list (map (\<lambda>op. 1 + g op) ops)"
  by (induction ops arbitrary: a) simp_all

lemma countRecursive_sum:
  "countRecursive ops = sum_list (map (\<lambda>op. 1 + countRecursive (children op)) ops)"
  using foldl_add_sum_list [of "\<lambda>op. countRecursive (children op)" 0 ops]
  by (subst countRecursive.simps) simp

lemma countRecursive_Nil: "countRecursive [] = 0"
  by (subst countRecursive_sum) simp

lemma countRecursive_children_nodes:
  "countRecursive (children op) = length (concat (map subtree_nodes (children op)))"
proof (induction op)
  case (CalculationOperation f cs)
  have "countRecursive cs = sum_list (map (\<lambda>c. 1 + countRecursive (children c)) cs)"
    by (rule countRecursive_sum)
  also have "\<dots> = sum_list (map (\<lambda>c. length (subtree_nodes c)) cs)"
  proof (rule arg_cong [where f = sum_list], rule map_cong [OF refl])
    fix c assume "c \<in> set cs"
    then have "countRecursive (children c) = length (concat (map subtree_nodes (children c)))"
      by (rule CalculationOperation.IH)
    then show "1 + countRecursive (children c) = length (subtree_nodes c)"
      by (cases c) simp
  qed
  also have "\<dots> = length (concat (map subtree_nodes cs))"
    by (simp add: length_concat comp_def)
  finally show ?case by simp
qed

text \<open>
  Claim C7. \<^verbatim>\<open>CalculationRoot.create\<close> fails with \<open>InvalidValue\<close> exactly when the value
  is NaN or an infinity, and succeeds for every finite value (zero too). The root it
  creates has \<open>createdAt\<close> equal to \<open>updatedAt\<close> and counts no operation.
\<close>

theorem CalculationRoot_create_finite:
  "(CalculationRoot_create now uuid input = Inl InvalidValue \<longleftrightarrow>
      in_value input = NaN \<or> (\<exists>s. in_value input = Infinity s)) \<and>
   ((\<exists>s m. in_value input = Finite s m) \<longleftrightarrow>
      (\<exists>r. CalculationRoot_create now uuid input = Inr r)) \<and>
   (\<forall>r. CalculationRoot_create now uuid input = Inr r \<longrightarrow>
      root_createdAt (root_fields r) = root_updatedAt (root_fields r) \<and>
      getTotalOperationCount r = 0)"
  by (cases "in_value input")
     (auto simp: CalculationRoot_create_def new_CalculationRoot_def getTotalOperationCount_def
        countRecursive_Nil)

theorem CalculationRoot_create_finite_witness:
  "CalculationRoot_create (Date (Some 0)) ''root-uuid-1''
     \<lparr>in_value = NaN, in_userId = ''alice'', in_username = None\<rparr> = Inl InvalidValue \<and>
   CalculationRoot_create (Date (Some 0)) ''root-uuid-1''
     \<lparr>in_value = Infinity False, in_userId = ''alice'', in_username = None\<rparr> = Inl InvalidValue \<and>
   CalculationRoot_create (Date (Some 0)) ''root-uuid-1''
     \<lparr>in_value = Infinity True, in_userId = ''alice'', in_username = None\<rparr> = Inl InvalidValue \<and>
   (\<exists>r. CalculationRoot_create (Date (Some 0)) ''root-uuid-1''
          \<lparr>in_value = Finite False 0, in_userId = ''alice'', in_username = None\<rparr> = Inr r \<and>
        root_createdAt (root_fields r) = root_updatedAt (root_fields r) \<and>
        getTotalOperationCount r = 0)"
  using CalculationRoot_create_finite [of "Date (Some 0)" "''root-uuid-1''"
          "\<lparr>in_value = NaN, in_userId = ''alice'', in_username = None\<rparr>"]
        CalculationRoot_create_finite [of "Date (Some 0)" "''root-uuid-1''"
          "\<lparr>in_value = Infinity False, in_userId = ''alice'', in_username = None\<rparr>"]
        CalculationRoot_create_finite [of "Date (Some 0)" "''root-uuid-1''"
          "\<lparr>in_value = Infinity True, in_userId = ''alice'', in_username = None\<rparr>"]
        CalculationRoot_create_finite [of "Date (Some 0)" "''root-uuid-1''"
          "\<lparr>in_value = Finite False 0, in_userId = ''alice'', in_username = None\<rparr>"]
  by auto

text \<open>
  Claim C9. \<^verbatim>\<open>getTotalOperationCount\<close> is the number of operations below the root, each
  counted once: it is the length of the list of all operations of the subtrees of the
  root's operations; it is the sum, over the root's operations, of one plus the count of
  the operation's children; and it is zero for a root without operations.
\<close>

theorem getTotalOperationCount_counts:
  "getTotalOperationCount r = length (concat (map subtree_nodes (operations r))) \<and>
   getTotalOperationCount r
     = sum_list (map (\<lambda>op. 1 + countRecursive (children op)) (operations r)) \<and>
   (operations r = [] \<longrightarrow> getTotalOperationCount r = 0)"
proof -
  have "countRecursive (children (CalculationOperation f (operations r)))
          = length (concat (map subtree_nodes
              (children (CalculationOperation f (operations r)))))" for f
    by (rule countRecursive_children_nodes)
  then have "countRecursive (operations r) = length (concat (map subtree_nodes (operations r)))"
    by simp
  moreover have "countRecursive (operations r)
      = sum_list (map (\<lambda>op. 1 + countRecursive (children op)) (operations r))"
    by (rule countRecursive_sum)
  ultimately show ?thesis
    by (simp add: getTotalOperationCount_def countRecursive_Nil)
qed

theorem getTotalOperationCount_counts_witness:
  "getTotalOperationCount
     (CalculationRoot (root_fields example_root)
        [example_operation ''op-1'' (Some ''root-123'') None
           [example_operation ''op-2'' None (Some ''op-1'') []],
         example_operation ''op-3'' (Some ''root-123'') None []]) = 3 \<and>
   getTotalOperationCount example_root = 0"
  using getTotalOperationCount_counts [of "CalculationRoot (root_fields example_root)
        [example_operation ''op-1'' (Some ''root-123'') None
           [example_operation ''op-2'' None (Some ''op-1'') []],
         example_operation ''op-3'' (Some ''root-123'') None []]"]
        getTotalOperationCount_counts [of example_root]
  by (simp add: example_root_def example_operation_def)

lemma strict_equals_zero_number_of_int:
  "strict_equals_zero (number_of_int i) \<longleftrightarrow> i = 0"
  by (simp add: number_of_int_def)

lemma calculate_valid:
  "isValidWith op x \<Longrightarrow> \<exists>r. calculate op p x = Inr r"
  by (cases op; cases "toString op") (auto split: if_splits)

lemma calculate_error:
  "calculate op p x = Inl e \<Longrightarrow> e = DivisionByZero"
  by (cases op; cases "toString op") (auto split: if_splits)

text \<open>
  Claim C1, as the code has it. A parent id counts as given when it is a string that is
  not empty. For every input of \<^verbatim>\<open>CalculationOperation.create\<close>: when neither
  \<open>parentRootId\<close> nor \<open>parentOperationId\<close> is given, it fails with \<open>MissingParent\<close>; when
  both are given, it fails with \<open>AmbiguousParent\<close>; otherwise, when
  \<open>isValidWith\<close> is false (the operator is DIVIDE and the operand is zero), it fails with
  \<open>DivisionByZero\<close>; otherwise it succeeds, the result of the created operation is
  \<open>calculate parentValue operand\<close>, and its list of children is empty.
\<close>

theorem CalculationOperation_create_spec:
  "(\<not> truthy (parentRootId input) \<and> \<not> truthy (parentOperationId input) \<longrightarrow>
      CalculationOperation_create now uuid input = Inl MissingParent) \<and>
   (truthy (parentRootId input) \<and> truthy (parentOperationId input) \<longrightarrow>
      CalculationOperation_create now uuid input = Inl AmbiguousParent) \<and>
   (truthy (parentRootId input) \<noteq> truthy (parentOperationId input) \<and>
    \<not> isValidWith (operator input) (operand input) \<longrightarrow>
      operator input = Operator DIVIDE \<and> strict_equals_zero (operand input) \<and>
      CalculationOperation_create now uuid input = Inl DivisionByZero) \<and>
   (truthy (parentRootId input) \<noteq> truthy (parentOperationId input) \<and>
    isValidWith (operator input) (operand input) \<longrightarrow>
      (\<exists>op. CalculationOperation_create now uuid input = Inr op \<and>
            calculate (operator input) (parentValue input) (operand input)
              = Inr (op_result (op_fields op)) \<and>
            children op = []))"
proof (cases "isValidWith (operator input) (operand input)")
  case True
  then obtain r where "calculate (operator input) (parentValue input) (operand input) = Inr r"
    using calculate_valid by blast
  with True show ?thesis
    by (auto simp: CalculationOperation_create_def new_CalculationOperation_def)
next
  case False
  then have "operator input = Operator DIVIDE \<and> strict_equals_zero (operand input)"
    by (cases "operator input") (auto split: if_splits)
  with False show ?thesis
    by (auto simp: CalculationOperation_create_def)
qed

theorem CalculationOperation_create_spec_witness:
  "(\<exists>op. CalculationOperation_create (Date (Some 0)) ''op-uuid-1''
            (example_input (Some ''root-123'') None ADD 50 100) = Inr op \<and>
         op_result (op_fields op) = number_of_int 150 \<and> children op = []) \<and>
   (\<exists>op. CalculationOperation_create (Date (Some 0)) ''op-uuid-2''
            (example_input None (Some ''op-uuid-1'') MULTIPLY 2 150) = Inr op \<and>
         op_result (op_fields op) = number_of_int 300 \<and> children op = []) \<and>
   CalculationOperation_create (Date (Some 0)) ''op-uuid-1''
      (example_input None None ADD 50 100) = Inl MissingParent \<and>
   CalculationOperation_create (Date (Some 0)) ''op-uuid-1''
      (example_input (Some ''root-123'') (Some ''op-123'') ADD 50 100) = Inl AmbiguousParent \<and>
   CalculationOperation_create (Date (Some 0)) ''op-uuid-1''
      (example_input (Some ''root-123'') None DIVIDE 0 100) = Inl DivisionByZero"
proof (intro conjI)
  show "\<exists>op. CalculationOperation_create (Date (Some 0)) ''op-uuid-1''
            (example_input (Some ''root-123'') None ADD 50 100) = Inr op \<and>
         op_result (op_fields op) = number_of_int 150 \<and> children op = []"
    using CalculationOperation_create_spec
            [of "example_input (Some ''root-123'') None ADD 50 100" "Date (Some 0)" "''op-uuid-1''"]
    by (auto simp: example_input_def truthy_def number_add_100_50)
  show "\<exists>op. CalculationOperation_create (Date (Some 0)) ''op-uuid-2''
            (example_input None (Some ''op-uuid-1'') MULTIPLY 2 150) = Inr op \<and>
         op_result (op_fields op) = number_of_int 300 \<and> children op = []"
    using CalculationOperation_create_spec
            [of "example_input None (Some ''op-uuid-1'') MULTIPLY 2 150" "Date (Some 0)"
                "''op-uuid-2''"]
    by (auto simp: example_input_def truthy_def number_multiply_150_2)
  show "CalculationOperation_create (Date (Some 0)) ''op-uuid-1''
      (example_input None None ADD 50 100) = Inl MissingParent"
    using CalculationOperation_create_spec
            [of "example_input None None ADD 50 100" "Date (Some 0)" "''op-uuid-1''"]
    by (simp add: example_input_def truthy_def)
  show "CalculationOperation_create (Date (Some 0)) ''op-uuid-1''
      (example_input (Some ''root-123'') (Some ''op-123'') ADD 50 100) = Inl AmbiguousParent"
    using CalculationOperation_create_spec
            [of "example_input (Some ''root-123'') (Some ''op-123'') ADD 50 100" "Date (Some 0)"
                "''op-uuid-1''"]
    by (simp add: example_input_def truthy_def)
  show "CalculationOperation_create (Date (Some 0)) ''op-uuid-1''
      (example_input (Some ''root-123'') None DIVIDE 0 100) = Inl DivisionByZero"
    using CalculationOperation_create_spec
            [of "example_input (Some ''root-123'') None DIVIDE 0 100" "Date (Some 0)"
                "''op-uuid-1''"]
    by (simp add: example_input_def truthy_def strict_equals_zero_number_of_int)
qed

text \<open>
  An input in which both parent ids are given, as empty strings, fails with
  \<open>MissingParent\<close> and not with \<open>AmbiguousParent\<close>.
\<close>

theorem CalculationOperation_create_both_empty:
  "CalculationOperation_create (Date (Some 0)) ''op-uuid-1''
      \<lparr>parentRootId = Some '''', parentOperationId = Some '''', operator = Operator ADD,
       operand = number_of_int 50, parentValue = number_of_int 100,
       userId = ''user-123'', username = None\<rparr> = Inl MissingParent \<and>
   CalculationOperation_create (Date (Some 0)) ''op-uuid-1''
      \<lparr>parentRootId = Some '''', parentOperationId = Some '''', operator = Operator ADD,
       operand = number_of_int 50, parentValue = number_of_int 100,
       userId = ''user-123'', username = None\<rparr> \<noteq> Inl AmbiguousParent"
  by (simp add: CalculationOperation_create_def truthy_def)

section \<open>Serialization and reconstitution\<close>

lemma reconstituteOperation_toJSON:
  "reconstituteOperation (CalculationOperation_toJSON op) = op"
proof (induction op)
  case (CalculationOperation f cs)
  have kids: "map (reconstituteOperation \<circ> CalculationOperation_toJSON) cs = cs"
    by (rule map_idI) (simp add: CalculationOperation.IH)
  have op: "fromType (toString (op_operator f)) = op_operator f"
    by (cases "op_operator f") (simp add: fromType_def)
  show ?case
    by (simp add: CalculationOperation_fromPersistence_def new_CalculationOperation_def
        new_Date_def kids op)
qed

lemma reconstituteTrees_toJSON:
  "reconstituteTrees (map CalculationRoot_toJSON trees) = trees"
proof -
  have "reconstituteTree (CalculationRoot_toJSON r) = r" for r
  proof (cases r)
    case (CalculationRoot f ops)
    have "map (reconstituteOperation \<circ> CalculationOperation_toJSON) ops = ops"
      by (rule map_idI) (simp add: reconstituteOperation_toJSON)
    with CalculationRoot show ?thesis
      by (simp add: CalculationRoot_fromPersistence_def new_CalculationRoot_def new_Date_def)
  qed
  then show ?thesis
    by (simp add: reconstituteTrees_def comp_def)
qed

lemma toJSON_reconstituteOperation:
  "CalculationOperation_toJSON (reconstituteOperation j) = j"
proof (induction j)
  case (OperationJSON d cs)
  have kids: "map (CalculationOperation_toJSON \<circ> reconstituteOperation) cs = cs"
    by (rule map_idI) (simp add: OperationJSON.IH)
  show ?case
    by (simp add: CalculationOperation_fromPersistence_def new_CalculationOperation_def
        new_Date_def fromType_def kids)
qed

lemma toJSON_reconstituteTrees:
  "map CalculationRoot_toJSON (reconstituteTrees data) = data"
proof -
  have "CalculationRoot_toJSON (reconstituteTree j) = j" for j
  proof (cases j)
    case (RootJSON d ops)
    have "map (CalculationOperation_toJSON \<circ> reconstituteOperation) ops = ops"
      by (rule map_idI) (simp add: toJSON_reconstituteOperation)
    with RootJSON show ?thesis
      by (simp add: CalculationRoot_fromPersistence_def new_CalculationRoot_def new_Date_def)
  qed
  then show ?thesis
    by (simp add: reconstituteTrees_def comp_def)
qed

text \<open>
  Claim C4. Reconstituting the plain record that \<^verbatim>\<open>toJSON\<close> gives for a root returns the
  root itself: every field of the root, and every field and the children of every
  operation below it, at any depth, are the same.
\<close>

theorem reconstituteTree_toJSON:
  "reconstituteTree (CalculationRoot_toJSON r) = r"
proof (cases r)
  case (CalculationRoot f ops)
  have "map (reconstituteOperation \<circ> CalculationOperation_toJSON) ops = ops"
    by (rule map_idI) (simp add: reconstituteOperation_toJSON)
  with CalculationRoot show ?thesis
    by (simp add: CalculationRoot_fromPersistence_def new_CalculationRoot_def new_Date_def)
qed

theorem reconstituteTree_toJSON_witness:
  "reconstituteTree (CalculationRoot_toJSON
     (CalculationRoot (root_fields example_root)
        [example_operation ''op-1'' (Some ''root-123'') None
           [example_operation ''op-2'' None (Some ''op-1'') []],
         example_operation ''op-3'' (Some ''root-123'') None []]))
   = CalculationRoot (root_fields example_root)
        [example_operation ''op-1'' (Some ''root-123'') None
           [example_operation ''op-2'' None (Some ''op-1'') []],
         example_operation ''op-3'' (Some ''root-123'') None []]"
  using reconstituteTree_toJSON [of "CalculationRoot (root_fields example_root)
        [example_operation ''op-1'' (Some ''root-123'') None
           [example_operation ''op-2'' None (Some ''op-1'') []],
         example_operation ''op-3'' (Some ''root-123'') None []]"]
  by simp

section \<open>Properties of the repository filter\<close>

lemma addNestedChildren_grows:
  "addNestedChildren ops (S, f) = (S', f') \<Longrightarrow>
     S \<subseteq> S' \<and> S' \<subseteq> S \<union> row_id ` set ops \<and> (f' \<longleftrightarrow> f \<or> S' \<noteq> S)"
proof (induction ops arbitrary: S f)
  case Nil
  then show ?case by simp
next
  case (Cons op ops)
  show ?case
  proof (cases "truthy (row_parentOperationId op) \<and> the (row_parentOperationId op) \<in> S
                \<and> row_id op \<notin> S")
    case True
    with Cons.prems have "addNestedChildren ops (insert (row_id op) S, True) = (S', f')"
      by simp
    from Cons.IH [OF this] True show ?thesis by auto
  next
    case False
    with Cons.prems have "addNestedChildren ops (S, f) = (S', f')"
      by (auto split: if_splits)
    from Cons.IH [OF this] show ?thesis by auto
  qed
qed

lemma addDirectChildren_eq:
  "addDirectChildren rootId ops S =
     S \<union> {row_id op |op. op \<in> set ops \<and> row_parentRootId op = Some rootId}"
  by (induction ops arbitrary: S) auto

lemma truthy_Some: "truthy x \<longleftrightarrow> (\<exists>p. x = Some p \<and> p \<noteq> [])"
  by (cases x) (auto simp: truthy_def)

lemma addNestedChildren_sound:
  "addNestedChildren ops (S, f) = (S', f') \<Longrightarrow> set ops \<subseteq> rows \<Longrightarrow>
     S \<subseteq> belongs rootId rows \<Longrightarrow> S' \<subseteq> belongs rootId rows"
proof (induction ops arbitrary: S f)
  case Nil
  then show ?case by simp
next
  case (Cons op ops)
  show ?case
  proof (cases "truthy (row_parentOperationId op) \<and> the (row_parentOperationId op) \<in> S
                \<and> row_id op \<notin> S")
    case True
    then obtain p where p: "row_parentOperationId op = Some p" "p \<noteq> []" "p \<in> S"
      by (auto simp: truthy_Some)
    have "row_id op \<in> belongs rootId rows"
      using Cons.prems(2,3) p by (intro belongs.nested [of op _ p]) auto
    then have inv: "insert (row_id op) S \<subseteq> belongs rootId rows"
      using Cons.prems(3) by simp
    from True Cons.prems(1) have "addNestedChildren ops (insert (row_id op) S, True) = (S', f')"
      by simp
    from Cons.IH [OF this _ inv] Cons.prems(2) show ?thesis by simp
  next
    case False
    with Cons.prems(1) have "addNestedChildren ops (S, f) = (S', f')"
      by (auto split: if_splits)
    from Cons.IH [OF this _ Cons.prems(3)] Cons.prems(2) show ?thesis by simp
  qed
qed

lemma addNestedChildren_closed:
  "addNestedChildren ops (S, f) = (S, f') \<Longrightarrow> op \<in> set ops \<Longrightarrow>
     row_parentOperationId op = Some p \<Longrightarrow> p \<noteq> [] \<Longrightarrow> p \<in> S \<Longrightarrow> row_id op \<in> S"
proof (induction ops arbitrary: f)
  case Nil
  then show ?case by simp
next
  case (Cons a ops)
  show ?case
  proof (cases "truthy (row_parentOperationId a) \<and> the (row_parentOperationId a) \<in> S
                \<and> row_id a \<notin> S")
    case True
    with Cons.prems(1) have "addNestedChildren ops (insert (row_id a) S, True) = (S, f')"
      by simp
    from addNestedChildren_grows [OF this] True show ?thesis by auto
  next
    case False
    with Cons.prems(1) have rest: "addNestedChildren ops (S, f) = (S, f')"
      by (auto split: if_splits)
    show ?thesis
    proof (cases "op = a")
      case True
      with False Cons.prems(3,4,5) show ?thesis by (auto simp: truthy_def)
    next
      case False
      with Cons.prems(2) have "op \<in> set ops" by simp
      from Cons.IH [OF rest this Cons.prems(3,4,5)] show ?thesis .
    qed
  qed
qed

lemma expandUntilFixed_belongs:
  "addDirectChildren rootId allOps {} \<subseteq> S \<Longrightarrow> S \<subseteq> belongs rootId (set allOps) \<Longrightarrow>
     expandUntilFixed allOps S = belongs rootId (set allOps)"
proof (induction allOps S rule: expandUntilFixed.induct)
  case (1 allOps S)
  obtain S' foundNew where run: "addNestedChildren allOps (S, False) = (S', foundNew)"
    by (cases "addNestedChildren allOps (S, False)")
  from addNestedChildren_grows [OF run]
  have sub: "S \<subseteq> S'" and flag: "foundNew \<longleftrightarrow> S' \<noteq> S"
    by auto
  from addNestedChildren_sound [OF run _ "1.prems"(2)]
  have sound: "S' \<subseteq> belongs rootId (set allOps)"
    by simp
  show ?case
  proof (cases foundNew)
    case True
    have "expandUntilFixed allOps S' = belongs rootId (set allOps)"
      using "1.IH" [OF run [symmetric] True] "1.prems"(1) sub sound by blast
    with run True show ?thesis
      by (subst expandUntilFixed.simps) simp
  next
    case False
    with flag have same: "S' = S" by simp
    have "x \<in> S" if "x \<in> belongs rootId (set allOps)" for x
      using that
    proof (induction rule: belongs.induct)
      case (direct op)
      then have "row_id op \<in> addDirectChildren rootId allOps {}"
        by (auto simp: addDirectChildren_eq)
      with "1.prems"(1) show ?case by blast
    next
      case (nested op p)
      from run same have "addNestedChildren allOps (S, False) = (S, foundNew)"
        by simp
      from addNestedChildren_closed [OF this nested.hyps(1,2,3) nested.IH]
      show ?case .
    qed
    with "1.prems"(2) have "S = belongs rootId (set allOps)"
      by blast
    with run False same show ?thesis
      by (subst expandUntilFixed.simps) simp
  qed
qed

lemma filterOperationsForRoot_eq:
  "filterOperationsForRoot rootId allOps =
     filter (\<lambda>op. row_id op \<in> belongs rootId (set allOps)) allOps"
proof -
  have "addDirectChildren rootId allOps {} \<subseteq> belongs rootId (set allOps)"
    by (auto simp: addDirectChildren_eq intro: belongs.direct)
  from expandUntilFixed_belongs [OF subset_refl this]
  show ?thesis
    by (simp add: filterOperationsForRoot_def)
qed

text \<open>
  Claim C3, as the code has it. For every root id and every list of operation rows,
  \<^verbatim>\<open>filterOperationsForRoot\<close> returns (it is a total function) exactly the rows, in the
  order of the list, whose ids belong to the root, where the ids that belong are the
  least set such that: the id of a row belongs when the row's \<open>parentRootId\<close> is the root's
  id, or when its \<open>parentOperationId\<close> is a non-empty string that belongs. No other row is
  returned and none of these is missed; the set of ids depends on the set of rows only,
  so two lists with the same rows give the same rows.
\<close>

theorem filterOperationsForRoot_closure:
  "filterOperationsForRoot rootId allOps =
     filter (\<lambda>op. row_id op \<in> belongs rootId (set allOps)) allOps \<and>
   (set allOps' = set allOps \<longrightarrow>
      set (filterOperationsForRoot rootId allOps') = set (filterOperationsForRoot rootId allOps))"
  by (simp add: filterOperationsForRoot_eq)

lemma filterOperationsForRoot_example:
  "filterOperationsForRoot ''root-123''
     [example_row ''c'' None (Some ''b''), example_row ''b'' None (Some ''a''),
      example_row ''z'' (Some ''root-9'') None, example_row ''y'' None (Some ''z''),
      example_row ''a'' (Some ''root-123'') None]
   = [example_row ''c'' None (Some ''b''), example_row ''b'' None (Some ''a''),
      example_row ''a'' (Some ''root-123'') None]"
  by (simp add: filterOperationsForRoot_def expandUntilFixed.simps example_row_def truthy_def)

theorem filterOperationsForRoot_closure_witness:
  "filter (\<lambda>op. row_id op \<in> belongs ''root-123''
       (set [example_row ''c'' None (Some ''b''), example_row ''b'' None (Some ''a''),
             example_row ''z'' (Some ''root-9'') None, example_row ''y'' None (Some ''z''),
             example_row ''a'' (Some ''root-123'') None]))
     [example_row ''c'' None (Some ''b''), example_row ''b'' None (Some ''a''),
      example_row ''z'' (Some ''root-9'') None, example_row ''y'' None (Some ''z''),
      example_row ''a'' (Some ''root-123'') None]
   = [example_row ''c'' None (Some ''b''), example_row ''b'' None (Some ''a''),
      example_row ''a'' (Some ''root-123'') None]"
  using filterOperationsForRoot_closure [of "''root-123''"
     "[example_row ''c'' None (Some ''b''), example_row ''b'' None (Some ''a''),
       example_row ''z'' (Some ''root-9'') None, example_row ''y'' None (Some ''z''),
       example_row ''a'' (Some ''root-123'') None]"]
    filterOperationsForRoot_example
  by simp

text \<open>
  A row whose id is the empty string belongs to the root; a second row has that id as
  its \<open>parentOperationId\<close>, and is not returned.
\<close>

theorem filterOperationsForRoot_empty_id:
  "filterOperationsForRoot ''root-123''
     [example_row '''' (Some ''root-123'') None, example_row ''b'' None (Some '''')]
   = [example_row '''' (Some ''root-123'') None] \<and>
   row_parentOperationId (example_row ''b'' None (Some ''''))
     = Some (row_id (example_row '''' (Some ''root-123'') None)) \<and>
   example_row ''b'' None (Some '''') \<notin> set (filterOperationsForRoot ''root-123''
     [example_row '''' (Some ''root-123'') None, example_row ''b'' None (Some '''')])"
  by (simp add: filterOperationsForRoot_def expandUntilFixed.simps example_row_def truthy_def)

section \<open>Properties of the calculation service\<close>

lemmas cache_simps = cache_get_def cache_set_def cache_delete_def cache_deleteMany_def
  consume_fault_def record_call_def catch_ignore_def Let_def

text \<open>
  Claim C5, as the code has it. Whenever the key \<open>FULL_TREE\<close> holds a serialized tree
  array and the lookup does not fail, \<^verbatim>\<open>getFullTree\<close> returns the entities reconstituted
  from that array: the entities whose serialization is the array, which are the
  entities that were serialized when the array was made from entities. The lookup is
  then the only call: no repository call, the database and the cache as they were. When
  the lookup succeeds and finds nothing, \<^verbatim>\<open>findAllRootsWithOperations\<close> is called once and
  its answer is returned, whether the write to the cache that follows fails or not; a
  failed write leaves the cache as it was, a write that succeeds stores the serialized
  trees. The repository is called only when the lookup succeeded and found nothing. A
  lookup that fails makes \<^verbatim>\<open>getFullTree\<close> fail with the error of the cache, after that
  one call.
\<close>

theorem getFullTree_cache_aside:
  "(cache w FULL_TREE = Some (TreeArray data) \<and> \<not> next_fault w \<longrightarrow>
      (\<exists>trees w1. getFullTree uow w = (Inr trees, w1) \<and>
         trees = reconstituteTrees data \<and>
         map CalculationRoot_toJSON trees = data \<and>
         (\<forall>loaded. data = map CalculationRoot_toJSON loaded \<longrightarrow> trees = loaded) \<and>
         calls w1 = calls w @ [CacheGet FULL_TREE] \<and> db w1 = db w \<and> cache w1 = cache w)) \<and>
   (cache w FULL_TREE = None \<and> \<not> next_fault w \<longrightarrow>
      (\<exists>w2. getFullTree uow w
               = (findAllRootsWithOperations (calculationRepository uow) (db w), w2) \<and>
            db w2 = db w \<and>
            calls w2 = calls w @ [CacheGet FULL_TREE, FindAllRootsWithOperations]
              @ (case findAllRootsWithOperations (calculationRepository uow) (db w) of
                   Inl e \<Rightarrow> []
                 | Inr trees \<Rightarrow>
                     [CacheSet FULL_TREE (TreeArray (map CalculationRoot_toJSON trees))
                        TTL_FULL_TREE]) \<and>
            (next_fault (consume_fault w) \<longrightarrow> cache w2 = cache w) \<and>
            (\<forall>trees. \<not> next_fault (consume_fault w) \<and>
                findAllRootsWithOperations (calculationRepository uow) (db w) = Inr trees \<longrightarrow>
                cache w2 = (cache w)(FULL_TREE \<mapsto> TreeArray (map CalculationRoot_toJSON trees))))) \<and>
   (FindAllRootsWithOperations \<in> set (drop (length (calls w)) (calls (snd (getFullTree uow w))))
      \<longrightarrow> cache w FULL_TREE = None \<and> \<not> next_fault w) \<and>
   (next_fault w \<longrightarrow>
      fst (getFullTree uow w) = Inl (CacheFailure ''get'') \<and>
      calls (snd (getFullTree uow w)) = calls w @ [CacheGet FULL_TREE])"
proof (intro conjI impI)
  assume hit: "cache w FULL_TREE = Some (TreeArray data) \<and> \<not> next_fault w"
  let ?w1 = "consume_fault (record_call (CacheGet FULL_TREE) w)"
  from hit have "getFullTree uow w = (Inr (reconstituteTrees data), ?w1)"
    by (simp add: getFullTree_def cache_get_def Let_def)
  moreover have "map CalculationRoot_toJSON (reconstituteTrees data) = data"
    by (rule toJSON_reconstituteTrees)
  moreover have "\<forall>loaded. data = map CalculationRoot_toJSON loaded \<longrightarrow>
      reconstituteTrees data = loaded"
    by (simp add: reconstituteTrees_toJSON)
  moreover have "calls ?w1 = calls w @ [CacheGet FULL_TREE]" "db ?w1 = db w" "cache ?w1 = cache w"
    by (simp_all add: consume_fault_def record_call_def)
  ultimately show "\<exists>trees w1. getFullTree uow w = (Inr trees, w1) \<and>
         trees = reconstituteTrees data \<and>
         map CalculationRoot_toJSON trees = data \<and>
         (\<forall>loaded. data = map CalculationRoot_toJSON loaded \<longrightarrow> trees = loaded) \<and>
         calls w1 = calls w @ [CacheGet FULL_TREE] \<and> db w1 = db w \<and> cache w1 = cache w"
    by blast
next
  assume miss: "cache w FULL_TREE = None \<and> \<not> next_fault w"
  let ?w1 = "consume_fault (record_call (CacheGet FULL_TREE) w)"
  from miss have get: "cache_get FULL_TREE w = (Inr None, ?w1)"
    by (simp add: cache_get_def Let_def)
  have nf: "next_fault ?w1 = next_fault (consume_fault w)"
    by (simp add: next_fault_def consume_fault_def record_call_def)
  show "\<exists>w2. getFullTree uow w
               = (findAllRootsWithOperations (calculationRepository uow) (db w), w2) \<and>
            db w2 = db w \<and>
            calls w2 = calls w @ [CacheGet FULL_TREE, FindAllRootsWithOperations]
              @ (case findAllRootsWithOperations (calculationRepository uow) (db w) of
                   Inl e \<Rightarrow> []
                 | Inr trees \<Rightarrow>
                     [CacheSet FULL_TREE (TreeArray (map CalculationRoot_toJSON trees))
                        TTL_FULL_TREE]) \<and>
            (next_fault (consume_fault w) \<longrightarrow> cache w2 = cache w) \<and>
            (\<forall>trees. \<not> next_fault (consume_fault w) \<and>
                findAllRootsWithOperations (calculationRepository uow) (db w) = Inr trees \<longrightarrow>
                cache w2 = (cache w)(FULL_TREE \<mapsto> TreeArray (map CalculationRoot_toJSON trees)))"
  proof (cases "findAllRootsWithOperations (calculationRepository uow) (db w)")
    case (Inl e)
    with get show ?thesis
      by (simp add: getFullTree_def call_findAllRootsWithOperations_def cache_simps)
  next
    case (Inr trees)
    with get nf show ?thesis
      by (auto simp: getFullTree_def call_findAllRootsWithOperations_def cacheTreesAsync_def
          cache_simps next_fault_def)
  qed
next
  assume called: "FindAllRootsWithOperations
      \<in> set (drop (length (calls w)) (calls (snd (getFullTree uow w))))"
  have only: "calls (snd (getFullTree uow w)) = calls w @ [CacheGet FULL_TREE]"
    if "cache w FULL_TREE \<noteq> None \<or> next_fault w"
    using that
    by (auto simp: getFullTree_def cache_simps split: option.splits cache_value.splits)
  show "cache w FULL_TREE = None"
  proof (rule ccontr)
    assume "cache w FULL_TREE \<noteq> None"
    then have "calls (snd (getFullTree uow w)) = calls w @ [CacheGet FULL_TREE]"
      by (intro only) simp
    with called show False by simp
  qed
  show "\<not> next_fault w"
  proof
    assume "next_fault w"
    then have "calls (snd (getFullTree uow w)) = calls w @ [CacheGet FULL_TREE]"
      by (intro only) simp
    with called show False by simp
  qed
next
  assume "next_fault w"
  then show "fst (getFullTree uow w) = Inl (CacheFailure ''get'')"
    "calls (snd (getFullTree uow w)) = calls w @ [CacheGet FULL_TREE]"
    by (simp_all add: getFullTree_def cache_simps)
qed

theorem getFullTree_cache_aside_witness:
  "fst (getFullTree failing_uow
      (example_world\<lparr>cache := (\<lambda>k. if k = FULL_TREE
          then Some (TreeArray [CalculationRoot_toJSON
            (CalculationRoot (root_fields example_root)
               [example_operation ''op-1'' (Some ''root-123'') None
                  [example_operation ''op-2'' None (Some ''op-1'') []],
                example_operation ''op-3'' (Some ''root-123'') None []])])
          else None)\<rparr>))
     = Inr [CalculationRoot (root_fields example_root)
               [example_operation ''op-1'' (Some ''root-123'') None
                  [example_operation ''op-2'' None (Some ''op-1'') []],
                example_operation ''op-3'' (Some ''root-123'') None []]] \<and>
   fst (getFullTree memory_uow (example_world\<lparr>cache_faults := [False, True]\<rparr>))
     = Inr [example_root] \<and>
   cache (snd (getFullTree memory_uow (example_world\<lparr>cache_faults := [False, True]\<rparr>)))
     = cache example_world \<and>
   cache (snd (getFullTree memory_uow example_world)) FULL_TREE
     = Some (TreeArray [CalculationRoot_toJSON example_root])"
proof -
  let ?tree = "CalculationRoot (root_fields example_root)
               [example_operation ''op-1'' (Some ''root-123'') None
                  [example_operation ''op-2'' None (Some ''op-1'') []],
                example_operation ''op-3'' (Some ''root-123'') None []]"
  let ?hit = "example_world\<lparr>cache := (\<lambda>k. if k = FULL_TREE
          then Some (TreeArray [CalculationRoot_toJSON ?tree]) else None)\<rparr>"
  let ?miss = "example_world\<lparr>cache_faults := [False, True]\<rparr>"
  have hit: "cache ?hit FULL_TREE = Some (TreeArray [CalculationRoot_toJSON ?tree])
      \<and> \<not> next_fault ?hit"
    by (simp add: next_fault_def example_world_def)
  have miss: "cache ?miss FULL_TREE = None \<and> \<not> next_fault ?miss"
    "next_fault (consume_fault ?miss)"
    by (simp_all add: next_fault_def consume_fault_def example_world_def)
  have miss2: "cache example_world FULL_TREE = None \<and> \<not> next_fault example_world"
    "\<not> next_fault (consume_fault example_world)"
    by (simp_all add: next_fault_def consume_fault_def example_world_def)
  have found: "findAllRootsWithOperations (calculationRepository memory_uow) (db ?miss)
       = Inr [example_root]"
     "findAllRootsWithOperations (calculationRepository memory_uow) (db example_world)
       = Inr [example_root]"
    by (simp_all add: memory_uow_def memory_repository_def example_world_def)
  from getFullTree_cache_aside [of ?hit "[CalculationRoot_toJSON ?tree]" failing_uow,
         THEN conjunct1, THEN mp, OF hit]
  obtain trees w1 where run: "getFullTree failing_uow ?hit = (Inr trees, w1)"
    and same: "\<forall>loaded. [CalculationRoot_toJSON ?tree] = map CalculationRoot_toJSON loaded
                 \<longrightarrow> trees = loaded"
    by blast
  have serialized: "[CalculationRoot_toJSON ?tree] = map CalculationRoot_toJSON [?tree]"
    by (simp only: list.map)
  have "trees = [?tree]"
    by (rule same [THEN spec, THEN mp, OF serialized])
  with run have one: "fst (getFullTree failing_uow ?hit) = Inr [?tree]"
    by simp
  from getFullTree_cache_aside [of ?miss _ memory_uow, THEN conjunct2, THEN conjunct1,
         THEN mp, OF miss(1)] miss(2) found(1)
  have two: "fst (getFullTree memory_uow ?miss) = Inr [example_root] \<and>
        cache (snd (getFullTree memory_uow ?miss)) = cache example_world"
    by auto
  from getFullTree_cache_aside [of example_world _ memory_uow, THEN conjunct2, THEN conjunct1,
         THEN mp, OF miss2(1)] miss2(2) found(2)
  have three: "cache (snd (getFullTree memory_uow example_world)) FULL_TREE
     = Some (TreeArray [CalculationRoot_toJSON example_root])"
    by auto
  from one two three show ?thesis
    by blast
qed

text \<open>
  The key \<open>FULL_TREE\<close> holds a serialized tree array and the lookup fails:
  \<^verbatim>\<open>getFullTree\<close> fails with the error of the cache and returns no entities.
\<close>

theorem getFullTree_failed_lookup:
  "cache (example_world\<lparr>cache := (\<lambda>k. if k = FULL_TREE
              then Some (TreeArray [CalculationRoot_toJSON example_root]) else None),
            cache_faults := [True]\<rparr>) FULL_TREE
     = Some (TreeArray [CalculationRoot_toJSON example_root]) \<and>
   fst (getFullTree memory_uow
      (example_world\<lparr>cache := (\<lambda>k. if k = FULL_TREE
              then Some (TreeArray [CalculationRoot_toJSON example_root]) else None),
            cache_faults := [True]\<rparr>))
     = Inl (CacheFailure ''get'') \<and>
   fst (getFullTree memory_uow
      (example_world\<lparr>cache := (\<lambda>k. if k = FULL_TREE
              then Some (TreeArray [CalculationRoot_toJSON example_root]) else None),
            cache_faults := [True]\<rparr>))
     \<noteq> Inr (reconstituteTrees [CalculationRoot_toJSON example_root])"
  by (simp add: getFullTree_def cache_simps next_fault_def example_world_def)

text \<open>
  Claim C6, as the code has it. Every call of \<^verbatim>\<open>createRoot\<close> first asks the cache to
  delete \<open>ROOT_LIST\<close> and \<open>FULL_TREE\<close>, and only then enters the transaction. Every call
  that fails, whatever the error (the validation of the value, the repository or the
  commit), asks for the same deletion again as its last call, after the calls that save
  the root, and leaves the database as it was. A failure of the deletion is dropped:
  when the second deletion does not fail, neither key holds a value after the failed
  call.
\<close>

theorem createRoot_invalidation:
  assumes "createRoot uow input w = (r, w')"
  shows "\<exists>rest. calls w' = calls w @ [CacheDeleteMany [ROOT_LIST, FULL_TREE], Transaction] @ rest \<and>
     (\<forall>e. r = Inl e \<longrightarrow>
        (\<exists>saves. rest = saves @ [CacheDeleteMany [ROOT_LIST, FULL_TREE]] \<and>
                 (\<forall>c \<in> set saves. \<exists>x. c = SaveRoot x)) \<and>
        db w' = db w \<and>
        (\<not> next_fault (consume_fault w) \<longrightarrow>
           cache w' ROOT_LIST = None \<and> cache w' FULL_TREE = None))"
  using assms
  by (auto simp: createRoot_def transaction_def call_saveRoot_def invalidateCacheForNewRoot_def
        updateCacheAfterRootCreation_def next_fault_def cache_simps
      split: sum.splits prod.splits if_splits list.splits)

theorem createRoot_invalidation_witness:
  "fst (createRoot failing_uow
          \<lparr>in_value = number_of_int 100, in_userId = ''user-123'', in_username = None\<rparr>
          (example_world\<lparr>cache := (\<lambda>k. if k = FULL_TREE then Some (TreeArray []) else None)\<rparr>))
     = Inl (PersistenceFailure ''DB Error'') \<and>
   cache (snd (createRoot failing_uow
          \<lparr>in_value = number_of_int 100, in_userId = ''user-123'', in_username = None\<rparr>
          (example_world\<lparr>cache := (\<lambda>k. if k = FULL_TREE then Some (TreeArray []) else None)\<rparr>)))
      FULL_TREE = None"
proof -
  let ?w = "example_world\<lparr>cache := (\<lambda>k. if k = FULL_TREE then Some (TreeArray []) else None)\<rparr>"
  let ?input = "\<lparr>in_value = number_of_int 100, in_userId = ''user-123'', in_username = None\<rparr>"
  have failed: "fst (createRoot failing_uow ?input ?w) = Inl (PersistenceFailure ''DB Error'')"
    by (simp add: createRoot_def transaction_def call_saveRoot_def CalculationRoot_create_def
        invalidateCacheForNewRoot_def failing_uow_def memory_repository_def example_world_def
        number_of_int_def cache_simps next_fault_def)
  have ok: "\<not> next_fault (consume_fault ?w)"
    by (simp add: next_fault_def consume_fault_def example_world_def)
  from failed have run: "createRoot failing_uow ?input ?w
       = (Inl (PersistenceFailure ''DB Error''), snd (createRoot failing_uow ?input ?w))"
    by (simp add: prod_eq_iff)
  from createRoot_invalidation [OF run] failed ok
  show ?thesis
    by auto
qed

text \<open>
  A call of \<^verbatim>\<open>createRoot\<close> that fails on the value NaN while both deletions fail: the
  key \<open>FULL_TREE\<close> holds after the call the value that it held before.
\<close>

theorem createRoot_failed_delete:
  "fst (createRoot memory_uow
          \<lparr>in_value = NaN, in_userId = ''user-123'', in_username = None\<rparr>
          (example_world\<lparr>cache := (\<lambda>k. if k = FULL_TREE then Some (TreeArray []) else None),
                         cache_faults := [True, True]\<rparr>))
     = Inl InvalidValue \<and>
   cache (snd (createRoot memory_uow
          \<lparr>in_value = NaN, in_userId = ''user-123'', in_username = None\<rparr>
          (example_world\<lparr>cache := (\<lambda>k. if k = FULL_TREE then Some (TreeArray []) else None),
                         cache_faults := [True, True]\<rparr>)))
      FULL_TREE = Some (TreeArray [])"
  by (simp add: createRoot_def transaction_def CalculationRoot_create_def
      invalidateCacheForNewRoot_def example_world_def cache_simps next_fault_def)

lemma calls_invalidateCacheForNewOperation:
  "calls (invalidateCacheForNewOperation input w)
     = calls w @ [CacheDeleteMany (keysToInvalidate input)]"
  by (simp add: invalidateCacheForNewOperation_def cache_simps)

lemma calls_updateCacheAfterOperationCreation:
  "\<exists>rest. calls (updateCacheAfterOperationCreation operation w) = calls w @ rest"
  by (simp add: updateCacheAfterOperationCreation_def cache_simps)

lemma calls_getParentValue:
  "truthy (svc_parentRootId input) \<noteq> truthy (svc_parentOperationId input) \<Longrightarrow>
   calls (snd (getParentValue uow input t))
     = calls t @ [if truthy (svc_parentRootId input)
                  then FindRootById (the (svc_parentRootId input))
                  else FindOperationById (the (svc_parentOperationId input))]"
  by (auto simp: getParentValue_def call_findRootById_def call_findOperationById_def
        record_call_def split: prod.splits sum.splits option.splits)

lemma calls_call_saveOperation:
  "call_saveOperation uow operation t = (r, t') \<Longrightarrow>
     calls t' = calls t @ [SaveOperation operation]"
  by (auto simp: call_saveOperation_def record_call_def Let_def split: sum.splits)

lemma calls_transaction:
  "calls (snd (transaction uow fn w)) = calls (snd (fn (record_call Transaction w)))"
  by (simp add: transaction_def split: prod.splits sum.splits)

lemma createOperation_calls:
  assumes one: "truthy (svc_parentRootId input) \<noteq> truthy (svc_parentOperationId input)"
  shows "\<exists>rest. calls (snd (createOperation uow input w))
     = calls w @ [CacheDeleteMany (keysToInvalidate input), Transaction,
                  if truthy (svc_parentRootId input)
                  then FindRootById (the (svc_parentRootId input))
                  else FindOperationById (the (svc_parentOperationId input))] @ rest"
proof -
  define body where "body = (\<lambda>t. case getParentValue uow input t of
                        (Inl e, t1) \<Rightarrow> (Inl e, t1)
                      | (Inr theParentValue, t1) \<Rightarrow>
                          (case Operator_create (svc_operator input) of
                             Inl e \<Rightarrow> (Inl e, t1)
                           | Inr theOperator \<Rightarrow>
                               (case CalculationOperation_create (env_now t1) (env_uuid t1)
                                       \<lparr>parentRootId = svc_parentRootId input,
                                        parentOperationId = svc_parentOperationId input,
                                        operator = theOperator,
                                        operand = svc_operand input,
                                        parentValue = theParentValue,
                                        userId = svc_userId input,
                                        username = svc_username input\<rparr> of
                                  Inl e \<Rightarrow> (Inl e, t1)
                                | Inr newOperation \<Rightarrow>
                                    (case call_saveOperation uow newOperation t1 of
                                       (Inl e, t2) \<Rightarrow> (Inl e, t2)
                                     | (Inr _, t2) \<Rightarrow> (Inr newOperation, t2)))))"
  have body: "\<exists>rest. calls (snd (body t)) = calls (snd (getParentValue uow input t)) @ rest" for t
    by (auto simp: body_def split: prod.splits sum.splits dest: calls_call_saveOperation)
  let ?w1 = "invalidateCacheForNewOperation input w"
  obtain r w2 where tx: "transaction uow body ?w1 = (r, w2)"
    by (cases "transaction uow body ?w1")
  from body [of "record_call Transaction ?w1"] calls_transaction [of uow body ?w1] tx
  obtain rest where w2: "calls w2 = calls (snd (getParentValue uow input
                           (record_call Transaction ?w1))) @ rest"
    by auto
  have w2': "calls w2 = calls w @ [CacheDeleteMany (keysToInvalidate input), Transaction,
                  if truthy (svc_parentRootId input)
                  then FindRootById (the (svc_parentRootId input))
                  else FindOperationById (the (svc_parentOperationId input))] @ rest"
    unfolding w2 calls_getParentValue [OF one]
    by (simp add: record_call_def calls_invalidateCacheForNewOperation)
  have run: "createOperation uow input w =
      (case r of Inr operation \<Rightarrow> (Inr operation, updateCacheAfterOperationCreation operation w2)
               | Inl e \<Rightarrow> (Inl e, invalidateCacheForNewOperation input w2))"
    using one tx unfolding createOperation_def body_def [symmetric]
    by (auto split: sum.splits)
  show ?thesis
  proof (cases r)
    case (Inl e)
    with run w2' show ?thesis
      by (simp add: calls_invalidateCacheForNewOperation)
  next
    case (Inr operation)
    from calls_updateCacheAfterOperationCreation [of operation w2]
    obtain more where "calls (updateCacheAfterOperationCreation operation w2) = calls w2 @ more"
      by blast
    with Inr run w2' show ?thesis
      by simp
  qed
qed

text \<open>
  Claim C10. A parent id that is the empty string counts as absent, in the check at the
  start of the service's \<^verbatim>\<open>createOperation\<close> and in \<^verbatim>\<open>CalculationOperation.create\<close>.
  With both ids given as empty strings both fail with \<open>MissingParent\<close>, the service
  before any call on the cache or the repository. With \<open>parentRootId\<close> empty and a
  non-empty \<open>parentOperationId\<close> \<open>p\<close>, the service passes its check, invalidates the keys
  of the operation \<open>p\<close> and no key of a root, and looks the parent value up as the
  operation \<open>p\<close>; the entity factory fails neither with \<open>MissingParent\<close> nor with
  \<open>AmbiguousParent\<close>, and with a valid operand it creates the operation with parent
  operation \<open>p\<close> (its \<open>parentRootId\<close> stays the empty string).
\<close>

theorem empty_parent_id_absent:
  "createOperation uow
      (input\<lparr>svc_parentRootId := Some '''', svc_parentOperationId := Some ''''\<rparr>) w
     = (Inl MissingParent, w) \<and>
   CalculationOperation_create now uuid
      (einput\<lparr>parentRootId := Some '''', parentOperationId := Some ''''\<rparr>)
     = Inl MissingParent \<and>
   (p \<noteq> '''' \<longrightarrow>
      (\<exists>rest. calls (snd (createOperation uow
                  (input\<lparr>svc_parentRootId := Some '''', svc_parentOperationId := Some p\<rparr>) w))
         = calls w @ [CacheDeleteMany [FULL_TREE, OPERATION p, OPERATION_CHILDREN p],
                      Transaction, FindOperationById p] @ rest) \<and>
      CalculationOperation_create now uuid
          (einput\<lparr>parentRootId := Some '''', parentOperationId := Some p\<rparr>)
        \<notin> {Inl MissingParent, Inl AmbiguousParent} \<and>
      (isValidWith (operator einput) (operand einput) \<longrightarrow>
         (\<exists>op. CalculationOperation_create now uuid
                  (einput\<lparr>parentRootId := Some '''', parentOperationId := Some p\<rparr>) = Inr op \<and>
               op_parentOperationId (op_fields op) = Some p \<and>
               op_parentRootId (op_fields op) = Some '''' \<and>
               calculate (operator einput) (parentValue einput) (operand einput)
                 = Inr (op_result (op_fields op)))))"
proof (intro conjI impI)
  show "createOperation uow
      (input\<lparr>svc_parentRootId := Some '''', svc_parentOperationId := Some ''''\<rparr>) w
     = (Inl MissingParent, w)"
    by (simp add: createOperation_def truthy_def)
  show "CalculationOperation_create now uuid
      (einput\<lparr>parentRootId := Some '''', parentOperationId := Some ''''\<rparr>)
     = Inl MissingParent"
    by (simp add: CalculationOperation_create_def truthy_def)
next
  assume p: "p \<noteq> ''''"
  let ?input = "input\<lparr>svc_parentRootId := Some '''', svc_parentOperationId := Some p\<rparr>"
  have "truthy (svc_parentRootId ?input) \<noteq> truthy (svc_parentOperationId ?input)"
    using p by (simp add: truthy_def)
  from createOperation_calls [OF this, of uow w] p
  show "\<exists>rest. calls (snd (createOperation uow ?input w))
         = calls w @ [CacheDeleteMany [FULL_TREE, OPERATION p, OPERATION_CHILDREN p],
                      Transaction, FindOperationById p] @ rest"
    by (simp add: keysToInvalidate_def truthy_def)
  let ?einput = "einput\<lparr>parentRootId := Some '''', parentOperationId := Some p\<rparr>"
  show "CalculationOperation_create now uuid ?einput \<notin> {Inl MissingParent, Inl AmbiguousParent}"
    using p by (auto simp: CalculationOperation_create_def truthy_def split: sum.splits
        dest: calculate_error)
  assume valid: "isValidWith (operator einput) (operand einput)"
  then obtain r where "calculate (operator einput) (parentValue einput) (operand einput) = Inr r"
    using calculate_valid by blast
  with valid p
  show "\<exists>op. CalculationOperation_create now uuid ?einput = Inr op \<and>
               op_parentOperationId (op_fields op) = Some p \<and>
               op_parentRootId (op_fields op) = Some '''' \<and>
               calculate (operator einput) (parentValue einput) (operand einput)
                 = Inr (op_result (op_fields op))"
    by (simp add: CalculationOperation_create_def new_CalculationOperation_def truthy_def
        or_null_def)
qed

theorem empty_parent_id_absent_witness:
  "(\<exists>rest. calls (snd (createOperation memory_uow
               \<lparr>svc_parentRootId = Some '''', svc_parentOperationId = Some ''parent-op-123'',
                svc_operator = ''MULTIPLY'', svc_operand = number_of_int 2,
                svc_userId = ''user-123'', svc_username = None\<rparr> example_world))
      = [CacheDeleteMany [FULL_TREE, OPERATION ''parent-op-123'',
                          OPERATION_CHILDREN ''parent-op-123''],
         Transaction, FindOperationById ''parent-op-123''] @ rest) \<and>
   (\<exists>op. fst (createOperation memory_uow
               \<lparr>svc_parentRootId = Some '''', svc_parentOperationId = Some ''parent-op-123'',
                svc_operator = ''MULTIPLY'', svc_operand = number_of_int 2,
                svc_userId = ''user-123'', svc_username = None\<rparr> example_world) = Inr op \<and>
         op_result (op_fields op) = number_of_int 300 \<and>
         op_parentOperationId (op_fields op) = Some ''parent-op-123'')"
proof -
  let ?input = "\<lparr>svc_parentRootId = Some '''', svc_parentOperationId = Some ''parent-op-123'',
                svc_operator = ''MULTIPLY'', svc_operand = number_of_int 2,
                svc_userId = ''user-123'', svc_username = None\<rparr>"
  have "''parent-op-123'' \<noteq> ''''"
    by simp
  with empty_parent_id_absent [of memory_uow ?input example_world _ _ _ "''parent-op-123''"]
  have "\<exists>rest. calls (snd (createOperation memory_uow ?input example_world))
      = calls example_world @ [CacheDeleteMany [FULL_TREE, OPERATION ''parent-op-123'',
                          OPERATION_CHILDREN ''parent-op-123''],
         Transaction, FindOperationById ''parent-op-123''] @ rest"
    by simp
  moreover have "calls example_world = []"
    by (simp add: example_world_def)
  moreover have "\<exists>op. fst (createOperation memory_uow ?input example_world) = Inr op \<and>
         op_result (op_fields op) = number_of_int 300 \<and>
         op_parentOperationId (op_fields op) = Some ''parent-op-123''"
    by (simp add: createOperation_def transaction_def getParentValue_def
        call_findOperationById_def call_saveOperation_def invalidateCacheForNewOperation_def
        updateCacheAfterOperationCreation_def Operator_create_def OPERATORS_def
        as_OperatorType_def CalculationOperation_create_def new_CalculationOperation_def
        memory_uow_def memory_repository_def example_world_def example_operation_def
        truthy_def or_null_def strict_equals_zero_number_of_int number_multiply_150_2
        cache_simps)
  ultimately show ?thesis
    by simp
qed

end
